theory Spec2Isabelle
  imports Main
begin

section \<open>The session layer of an AMQP 1.0 client: lib/session.js\<close>

text \<open>
  The source is one JavaScript class, \<open>Session\<close>, that mutates its own fields and talks to
  three collaborators: the connection, its links, and the listeners of the events it emits.
  The embedding is by explicit state passing. A value of type \<open>session\<close> holds the fields of
  the object; every method takes the session and returns the session after the call.

  \<^item> Calls that leave the session (a frame handed to the connection, a method of a link,
    an emitted event, \<open>console.warn\<close>) are appended, in program order, to the field
    \<open>effects\<close>. What a collaborator does in response is not part of this file. The
    \<open>debug\<close> lines of the source print only and are left out.
  \<^item> A thrown \<open>OverCapacityError\<close> is the left injection of a sum. \<open>sendMessage\<close> throws
    after it has changed the counters, so it returns the session together with the outcome.
  \<^item> The counters and delivery ids are JavaScript numbers that hold integers; they are
    \<open>int\<close> here (unbounded, no wrap-around). Fields that the source tests against
    \<open>undefined\<close>, \<open>null\<close> or for truthiness are \<open>option\<close> or \<open>jsopt\<close> values, and the
    tests are written out.
  \<^item> The fields \<open>policy\<close>, \<open>_sessionParams\<close> and \<open>_initialOutgoingId\<close> are assigned by
    \<open>begin\<close> and never cleared. The model keeps them as plain fields, so a value of type
    \<open>session\<close> stands for the object from its first \<open>begin\<close> on and, for the methods that
    do not read them (\<open>begin\<close>, \<open>end\<close>, \<open>_unmap\<close>), for the fresh object as well.
    Of the parameters, \<open>nextIncomingId\<close>, \<open>remoteIncomingWindow\<close> and
    \<open>remoteOutgoingWindow\<close> get their values from the peer's Begin; until then they hold
    what the policy's options hold, and the model reads that as an integer too.
  \<^item> A leading underscore of a method name is dropped (\<open>_unmap\<close> is \<open>unmap\<close>), and
    \<open>begin\<close> and \<open>end\<close> are \<open>session_begin\<close> and \<open>session_end\<close>.
\<close>

subsection \<open>Values and frames\<close>

text \<open>A field that may be absent (\<open>undefined\<close>), explicitly \<open>null\<close>, or hold a value.\<close>

datatype 'a jsopt = Undefined | Null | Val 'a

type_synonym message = string
type_synonym send_options = string
type_synonym amqp_error = string
type_synonym delivery_state = string

text \<open>\<open>constants.linkRole\<close>: the two roles of a link.\<close>

datatype role = sender | receiver

datatype error = OverCapacityError

record begin_frame =
  begin_remoteChannel :: "nat option"
  begin_nextOutgoingId :: int
  begin_incomingWindow :: int
  begin_outgoingWindow :: int
  begin_handleMax :: "int option"

record flow_frame =
  flow_nextIncomingId :: "int jsopt"
  flow_incomingWindow :: int
  flow_nextOutgoingId :: int
  flow_outgoingWindow :: int
  flow_handle :: "int jsopt"
  flow_available :: "int jsopt"
  flow_deliveryCount :: "int jsopt"
  flow_drain :: bool

record transfer_frame =
  transfer_handle :: "int jsopt"
  transfer_deliveryId :: "int jsopt"

record disposition_frame =
  disp_role :: role
  disp_first :: int
  disp_last :: "int option"
  disp_settled :: bool
  disp_state :: delivery_state

record attach_frame =
  attach_name :: "string option"
  attach_handle :: "int jsopt"

text \<open>
  The frame classes the dispatcher tells apart with \<open>instanceof\<close>; \<open>OtherFrame\<close> is any
  other class. \<open>EndFrame\<close> carries \<open>frame.error\<close>, \<open>DetachFrame\<close> carries \<open>frame.handle\<close>.
\<close>

datatype performative =
    BeginFrame begin_frame
  | EndFrame "amqp_error option"
  | AttachFrame attach_frame
  | DetachFrame "int jsopt"
  | FlowFrame flow_frame
  | TransferFrame transfer_frame
  | DispositionFrame disposition_frame
  | OtherFrame

record frame =
  frame_channel :: "nat option"
  performative :: performative

subsection \<open>Links, policies and the session object\<close>

text \<open>
  Modelled from the spec: the class \<open>Link\<close> (lib/link.js) is not among the sources. The
  spec gives a link a name, a handle and a role (sender or receiver), and that is all the
  session reads of it; the role is the one its policy asks for.
\<close>

record link =
  link_name :: string
  link_handle :: int
  link_role :: role

text \<open>\<open>policy.options.name\<close> is a string, or a function that is called once for one.\<close>

datatype name_source = NameString string | NameFunction string

record link_policy =
  lp_name :: name_source
  lp_role :: role

record session_params =
  nextOutgoingId :: int
  nextIncomingId :: int
  incomingWindow :: int
  outgoingWindow :: int
  remoteIncomingWindow :: int
  remoteOutgoingWindow :: int
  handleMax :: "int option"

record session_policy =
  options :: session_params
  enableSessionFlowControl :: bool

text \<open>The value of \<open>_transfersInFlight[messageId]\<close>.\<close>

record in_flight =
  tf_message :: message
  tf_options :: send_options
  tf_sent :: int

text \<open>The value of \<open>_allocatedHandles[hid]\<close>: \<open>true\<close> while reserved, then the link.\<close>

datatype handle_entry = Reserved | Allocated link

datatype link_call =
    Call_attach
  | Call_detach
  | Call_sendMessage int message send_options
  | Call_attachReceived frame
  | Call_detachReceived frame
  | Call_flowReceived frame
  | Call_messageReceived frame

datatype session_event =
    Mapped
  | Unmapped
  | ErrorReceived amqp_error
  | LinkAttached link
  | LinkDetached link
  | DispositionReceived int int bool delivery_state

datatype warning =
    EndBeforeMapped "nat option"
  | UnknownAttach frame
  | UnknownDetach frame
  | UnknownFlow frame
  | UnknownTransfer frame

datatype effect =
    Emit session_event
  | Conn_associateSession nat
  | Conn_on
  | Conn_removeListener
  | Conn_dissociateSession nat
  | Conn_sendFrame frame
  | LinkCall link link_call
  | ConsoleWarn warning

text \<open>The states of the table handed to the state machine library, in its order.\<close>

datatype sm_state = UNMAPPED | BEGIN_SENT | MAPPED | END_SENT | DISCARDING | END_RCVD

record session =
  mapped :: bool
  channel :: "nat option"
  remoteChannel :: "nat option"
  allocatedHandles :: "int \<rightharpoonup> handle_entry"
  linksByName :: "string \<rightharpoonup> link"
  linksByRemoteHandle :: "int jsopt \<rightharpoonup> link"
  senderLinks :: "link list"
  transfersInFlight :: "int \<rightharpoonup> in_flight"
  sessionSM :: sm_state
  policy :: session_policy
  sessionParams :: session_params
  initialOutgoingId :: int
  effects :: "effect list"

subsection \<open>The state machine\<close>

text \<open>
  Modelled from the spec: the library that runs the state table (stately.js) is not among
  the sources. The transitions are those of the table in the constructor, one function
  for each event; they are the rows of the table in section 4.1 of the spec (which also
  names a state BEGIN_RCVD that the constructor's table does not have). When the current
  state has no handler for an event the library calls nothing and the state stays.
\<close>

fun sm_sendBegin :: "sm_state \<Rightarrow> sm_state" where
  "sm_sendBegin UNMAPPED = BEGIN_SENT"
| "sm_sendBegin st = st"

fun sm_beginReceived :: "sm_state \<Rightarrow> sm_state" where
  "sm_beginReceived BEGIN_SENT = MAPPED"
| "sm_beginReceived st = st"

fun sm_sendEnd :: "sm_state \<Rightarrow> sm_state" where
  "sm_sendEnd MAPPED = END_SENT"
| "sm_sendEnd END_RCVD = UNMAPPED"
| "sm_sendEnd st = st"

fun sm_endReceived :: "sm_state \<Rightarrow> sm_state" where
  "sm_endReceived MAPPED = END_RCVD"
| "sm_endReceived END_SENT = UNMAPPED"
| "sm_endReceived DISCARDING = UNMAPPED"
| "sm_endReceived st = st"

subsection \<open>Small helpers for the effects\<close>

definition emit :: "session \<Rightarrow> session_event \<Rightarrow> session" where
  "emit s ev = s\<lparr>effects := effects s @ [Emit ev]\<rparr>"

definition warn :: "session \<Rightarrow> warning \<Rightarrow> session" where
  "warn s w = s\<lparr>effects := effects s @ [ConsoleWarn w]\<rparr>"

definition call_link :: "session \<Rightarrow> link \<Rightarrow> link_call \<Rightarrow> session" where
  "call_link s l c = s\<lparr>effects := effects s @ [LinkCall l c]\<rparr>"

definition sendFrame :: "session \<Rightarrow> frame \<Rightarrow> session" where
  "sendFrame s fr = s\<lparr>effects := effects s @ [Conn_sendFrame fr]\<rparr>"

subsection \<open>Lifecycle: begin, end, unmap\<close>

text \<open>
  \<open>begin(sessionPolicy)\<close>. The argument \<open>ch\<close> is the channel that
  \<open>connection.associateSession\<close> returns. \<open>u.deepMerge\<close> of one object is a copy of it,
  and \<open>u.assertArguments\<close> asks for three fields that the record always has.
\<close>

definition session_begin :: "session \<Rightarrow> session_policy \<Rightarrow> nat \<Rightarrow> session" where
  "session_begin s sessionPolicy ch =
     (let params = options sessionPolicy;
          beginFrame = \<lparr>frame_channel = Some ch,
                        performative = BeginFrame
                          \<lparr>begin_remoteChannel = None,
                           begin_nextOutgoingId = nextOutgoingId params,
                           begin_incomingWindow = incomingWindow params,
                           begin_outgoingWindow = outgoingWindow params,
                           begin_handleMax = handleMax params\<rparr>\<rparr>
      in s\<lparr>policy := sessionPolicy,
            channel := Some ch,
            sessionParams := params,
            initialOutgoingId := nextOutgoingId params,
            sessionSM := sm_sendBegin (sessionSM s),
            effects := effects s @ [Conn_associateSession ch, Conn_on, Conn_sendFrame beginFrame]\<rparr>)"

text \<open>\<open>_sendEnd\<close>: an End frame without error, on the local channel.\<close>

definition sendEnd :: "session \<Rightarrow> session" where
  "sendEnd s = sendFrame s \<lparr>frame_channel = channel s, performative = EndFrame None\<rparr>"

text \<open>
  \<open>_unmap\<close>. The connection is bound by the constructor and never reset, so of the guard
  \<open>connection !== undefined && channel !== undefined\<close> the second test decides.
\<close>

definition unmap :: "session \<Rightarrow> session" where
  "unmap s =
     (case channel s of
        None \<Rightarrow> s
      | Some ch \<Rightarrow>
          s\<lparr>remoteChannel := None,
            channel := None,
            mapped := False,
            effects := effects s @ [Conn_removeListener, Conn_dissociateSession ch, Emit Unmapped]\<rparr>)"

definition session_end :: "session \<Rightarrow> session" where
  "session_end s =
     (if remoteChannel s \<noteq> None then
        (let s1 = sendEnd (s\<lparr>sessionSM := sm_sendEnd (sessionSM s)\<rparr>)
         in if sessionSM s1 = UNMAPPED then unmap s1 else s1)
      else unmap (warn s (EndBeforeMapped (channel s))))"

subsection \<open>Handles and links\<close>

text \<open>
  The loop of \<open>_nextHandle\<close>: \<open>for (hid = 0; hid <= handleMax; ++hid)\<close>, returning the first
  \<open>hid\<close> whose entry is \<open>undefined\<close>; \<open>None\<close> when the loop runs out.
\<close>

function scanHandles :: "int \<Rightarrow> int \<Rightarrow> (int \<rightharpoonup> handle_entry) \<Rightarrow> int option" where
  "scanHandles hid hmax alloc =
     (if hid \<le> hmax then
        (if alloc hid = None then Some hid else scanHandles (hid + 1) hmax alloc)
      else None)"
  by pat_completeness auto
termination
  by (relation "measure (\<lambda>(hid, hmax, alloc). nat (hmax + 1 - hid))") auto

declare scanHandles.simps [simp del]

text \<open>
  \<open>_nextHandle\<close>. With \<open>handleMax\<close> undefined the comparison \<open>hid <= undefined\<close> is false,
  the loop body never runs and the method throws.
\<close>

definition nextHandle :: "session \<Rightarrow> error + (session \<times> int)" where
  "nextHandle s =
     (case handleMax (sessionParams s) of
        None \<Rightarrow> Inl OverCapacityError
      | Some hmax \<Rightarrow>
          (case scanHandles 0 hmax (allocatedHandles s) of
             None \<Rightarrow> Inl OverCapacityError
           | Some hid \<Rightarrow> Inr (s\<lparr>allocatedHandles := (allocatedHandles s)(hid \<mapsto> Reserved)\<rparr>, hid)))"

fun resolve_name :: "name_source \<Rightarrow> string" where
  "resolve_name (NameString n) = n"
| "resolve_name (NameFunction n) = n"

text \<open>
  \<open>attachLink(linkPolicy)\<close>. \<open>_nextHandle\<close> throws before anything is written, so a failed
  attach leaves the session as it was and the result needs no session.
\<close>

definition attachLink :: "session \<Rightarrow> link_policy \<Rightarrow> error + (session \<times> link)" where
  "attachLink s linkPolicy =
     (let name = resolve_name (lp_name linkPolicy) in
      case nextHandle s of
        Inl e \<Rightarrow> Inl e
      | Inr (s1, h) \<Rightarrow>
          (let newLink = \<lparr>link_name = name, link_handle = h, link_role = lp_role linkPolicy\<rparr>;
               s2 = s1\<lparr>allocatedHandles := (allocatedHandles s1)(h \<mapsto> Allocated newLink),
                       linksByName := (linksByName s1)(name \<mapsto> newLink)\<rparr>;
               s3 = call_link s2 newLink Call_attach;
               s4 = (if link_role newLink = sender
                     then s3\<lparr>senderLinks := senderLinks s3 @ [newLink]\<rparr> else s3)
           in Inr (s4, newLink)))"

definition linkAttached :: "session \<Rightarrow> link \<Rightarrow> session" where
  "linkAttached s l = emit s (LinkAttached l)"

definition linkDetached :: "session \<Rightarrow> link \<Rightarrow> session" where
  "linkDetached s l = emit s (LinkDetached l)"

definition detachLink :: "session \<Rightarrow> link \<Rightarrow> session" where
  "detachLink s l = call_link s l Call_detach"

subsection \<open>Sending and the windows\<close>

text \<open>
  \<open>sendMessage(link, message, options)\<close>; \<open>now\<close> is the value of \<open>Date.now()\<close>. The result
  is the session after the call and either the thrown error or a normal return (the
  value returned is the link's own and is not modelled).
\<close>

definition sendMessage ::
  "session \<Rightarrow> link \<Rightarrow> message \<Rightarrow> send_options \<Rightarrow> int \<Rightarrow> session \<times> (error + unit)" where
  "sendMessage s l msg opts now =
     (let p = sessionParams s;
          messageId = nextOutgoingId p;
          p1 = p\<lparr>nextOutgoingId := nextOutgoingId p + 1,
                 remoteIncomingWindow := remoteIncomingWindow p - 1,
                 outgoingWindow := outgoingWindow p - 1\<rparr>;
          deliver = (\<lambda>q.
            (call_link
               (s\<lparr>sessionParams := q,
                   transfersInFlight := (transfersInFlight s)
                     (messageId \<mapsto> \<lparr>tf_message = msg, tf_options = opts, tf_sent = now\<rparr>)\<rparr>)
               l (Call_sendMessage messageId msg opts),
             Inr ()))
      in if remoteIncomingWindow p1 < 0 then
           (if enableSessionFlowControl (policy s)
            then (s\<lparr>sessionParams := p1\<rparr>, Inl OverCapacityError)
            else deliver (p1\<lparr>remoteIncomingWindow := 0, outgoingWindow := 0\<rparr>))
         else deliver p1)"

text \<open>
  \<open>addWindow(windowSize, flowOptions)\<close>: the fields the method overwrites are the ones
  the frame record has, so the caller's \<open>flowOptions\<close> leave no trace in it.
\<close>

definition addWindow :: "session \<Rightarrow> int \<Rightarrow> session" where
  "addWindow s windowSize =
     (let p = (sessionParams s)\<lparr>incomingWindow := incomingWindow (sessionParams s) + windowSize\<rparr>;
          flow = \<lparr>frame_channel = channel s,
                  performative = FlowFrame
                    \<lparr>flow_nextIncomingId = Val (nextIncomingId p),
                     flow_incomingWindow = incomingWindow p,
                     flow_nextOutgoingId = nextOutgoingId p,
                     flow_outgoingWindow = outgoingWindow p,
                     flow_handle = Null,
                     flow_available = Null,
                     flow_deliveryCount = Null,
                     flow_drain = False\<rparr>\<rparr>
      in sendFrame (s\<lparr>sessionParams := p\<rparr>) flow)"

subsection \<open>What a received frame does to the session\<close>

text \<open>
  \<open>_beginReceived\<close>; \<open>dhm\<close> is \<open>constants.defaultHandleMax\<close>, which is not among the
  sources. \<open>x || dhm\<close> takes \<open>dhm\<close> when \<open>x\<close> is absent or zero, and the conditional on the
  session's own \<open>handleMax\<close> tests the same.
\<close>

definition or_default :: "int option \<Rightarrow> int \<Rightarrow> int" where
  "or_default x d = (case x of None \<Rightarrow> d | Some v \<Rightarrow> if v = 0 then d else v)"

definition beginReceived :: "int \<Rightarrow> session \<Rightarrow> nat option \<Rightarrow> begin_frame \<Rightarrow> session" where
  "beginReceived dhm s ch f =
     (let p = sessionParams s;
          hm = (case handleMax p of
                  None \<Rightarrow> or_default (begin_handleMax f) dhm
                | Some h \<Rightarrow> if h = 0 then or_default (begin_handleMax f) dhm
                            else min h (or_default (begin_handleMax f) dhm))
      in emit
           (s\<lparr>remoteChannel := ch,
               sessionParams := p\<lparr>nextIncomingId := begin_nextOutgoingId f,
                                   remoteIncomingWindow := begin_incomingWindow f,
                                   remoteOutgoingWindow := begin_outgoingWindow f,
                                   handleMax := Some hm\<rparr>,
               mapped := True\<rparr>)
           Mapped)"

definition flowReceived :: "session \<Rightarrow> flow_frame \<Rightarrow> session" where
  "flowReceived s f =
     (let p = (sessionParams s)\<lparr>nextIncomingId := flow_nextOutgoingId f,
                                 remoteOutgoingWindow := flow_outgoingWindow f\<rparr>;
          noKnownId = s\<lparr>sessionParams := p\<lparr>remoteIncomingWindow :=
                        initialOutgoingId s + flow_incomingWindow f - nextOutgoingId p\<rparr>\<rparr>
      in case flow_nextIncomingId f of
           Undefined \<Rightarrow> noKnownId
         | Null \<Rightarrow> noKnownId
         | Val nii \<Rightarrow>
             s\<lparr>sessionParams := p\<lparr>remoteIncomingWindow :=
                   nii + flow_incomingWindow f - nextOutgoingId p\<rparr>\<rparr>)"

definition transferReceived :: "session \<Rightarrow> transfer_frame \<Rightarrow> session" where
  "transferReceived s f =
     (let p = (sessionParams s)\<lparr>incomingWindow := incomingWindow (sessionParams s) - 1,
                                 remoteOutgoingWindow := remoteOutgoingWindow (sessionParams s) - 1\<rparr>
      in case transfer_deliveryId f of
           Val d \<Rightarrow> s\<lparr>sessionParams := p\<lparr>nextIncomingId := d + 1\<rparr>\<rparr>
         | _ \<Rightarrow> s\<lparr>sessionParams := p\<rparr>)"

definition endReceived :: "session \<Rightarrow> amqp_error option \<Rightarrow> session" where
  "endReceived s err = (case err of Some e \<Rightarrow> emit s (ErrorReceived e) | None \<Rightarrow> s)"

text \<open>
  The loop over a settled range:
  \<open>for (messageId = first; messageId <= last; ++messageId)\<close>, deleting the entries found.
\<close>

function settleRange :: "int \<Rightarrow> int \<Rightarrow> (int \<rightharpoonup> in_flight) \<Rightarrow> (int \<rightharpoonup> in_flight)" where
  "settleRange messageId lst inflight =
     (if messageId \<le> lst then
        settleRange (messageId + 1) lst
          (if inflight messageId \<noteq> None then inflight(messageId := None) else inflight)
      else inflight)"
  by pat_completeness auto
termination
  by (relation "measure (\<lambda>(messageId, lst, inflight). nat (lst + 1 - messageId))") auto

declare settleRange.simps [simp del]

text \<open>\<open>frame.last || first\<close>: \<open>first\<close> when \<open>last\<close> is absent, null or zero.\<close>

definition last_or_first :: "disposition_frame \<Rightarrow> int" where
  "last_or_first d = or_default (disp_last d) (disp_first d)"

text \<open>
  The link a frame is routed to, if any. Attach:
  \<open>frame.name && _linksByName[frame.name]\<close> (the name is there, not empty, and known).
  Detach: \<open>frame.handle !== undefined && _linksByRemoteHandle[frame.handle]\<close>.
  Transfer: \<open>frame.handle !== null && _linksByRemoteHandle[frame.handle]\<close>.
  A key of \<open>_linksByRemoteHandle\<close> is whatever handle the link was filed under, so the
  map is over \<open>int jsopt\<close>: JavaScript reads \<open>obj[undefined]\<close> as the property named
  "undefined", which no numeric handle has.
\<close>

definition attach_target :: "session \<Rightarrow> attach_frame \<Rightarrow> link option" where
  "attach_target s a =
     (case attach_name a of
        None \<Rightarrow> None
      | Some n \<Rightarrow> if n = [] then None else linksByName s n)"

definition detach_target :: "session \<Rightarrow> int jsopt \<Rightarrow> link option" where
  "detach_target s h = (if h \<noteq> Undefined then linksByRemoteHandle s h else None)"

definition transfer_target :: "session \<Rightarrow> transfer_frame \<Rightarrow> link option" where
  "transfer_target s t =
     (if transfer_handle t \<noteq> Null then linksByRemoteHandle s (transfer_handle t) else None)"

text \<open>
  \<open>_processFrame(frame)\<close>. A Begin frame whose \<open>remoteChannel\<close> is not the local channel
  falls through to the channel test and then to the last \<open>else\<close>, as any other class does.
\<close>

definition dispatch :: "session \<Rightarrow> frame \<Rightarrow> session" where
  "dispatch s fr =
     (case performative fr of
        EndFrame err \<Rightarrow>
          (let s1 = endReceived (s\<lparr>sessionSM := sm_endReceived (sessionSM s)\<rparr>) err;
               s2 = (if sessionSM s1 \<noteq> UNMAPPED
                     then sendEnd (s1\<lparr>sessionSM := sm_sendEnd (sessionSM s1)\<rparr>) else s1)
           in unmap s2)
      | AttachFrame a \<Rightarrow>
          (case attach_target s a of
             Some l \<Rightarrow> call_link s l (Call_attachReceived fr)
           | None \<Rightarrow> warn s (UnknownAttach fr))
      | DetachFrame h \<Rightarrow>
          (case detach_target s h of
             Some l \<Rightarrow> call_link s l (Call_detachReceived fr)
           | None \<Rightarrow> warn s (UnknownDetach fr))
      | FlowFrame f \<Rightarrow>
          (let s1 = flowReceived s f in
           if flow_handle f \<noteq> Null then
             (case linksByRemoteHandle s1 (flow_handle f) of
                Some l \<Rightarrow> call_link s1 l (Call_flowReceived fr)
              | None \<Rightarrow> warn s1 (UnknownFlow fr))
           else foldl (\<lambda>acc senderLink. call_link acc senderLink (Call_flowReceived fr))
                  s1 (senderLinks s1))
      | TransferFrame t \<Rightarrow>
          (case transfer_target s t of
             Some l \<Rightarrow> call_link (transferReceived s t) l (Call_messageReceived fr)
           | None \<Rightarrow> warn s (UnknownTransfer fr))
      | DispositionFrame d \<Rightarrow>
          (if disp_role d \<noteq> receiver then s
           else
             (let first = disp_first d;
                  lst = last_or_first d;
                  settled = disp_settled d;
                  s1 = (if settled
                        then s\<lparr>transfersInFlight := settleRange first lst (transfersInFlight s)\<rparr>
                        else s)
              in emit s1 (DispositionReceived first lst settled (disp_state d))))
      | BeginFrame b \<Rightarrow> s
      | OtherFrame \<Rightarrow> s)"

definition processFrame :: "int \<Rightarrow> session \<Rightarrow> frame \<Rightarrow> session" where
  "processFrame dhm s fr =
     (case performative fr of
        BeginFrame b \<Rightarrow>
          (if begin_remoteChannel b = channel s
           then beginReceived dhm (s\<lparr>sessionSM := sm_beginReceived (sessionSM s)\<rparr>)
                  (frame_channel fr) b
           else if frame_channel fr = None \<or> frame_channel fr \<noteq> remoteChannel s then s
           else dispatch s fr)
      | _ \<Rightarrow>
          (if frame_channel fr = None \<or> frame_channel fr \<noteq> remoteChannel s then s
           else dispatch s fr))"

subsection \<open>Runs of calls\<close>

text \<open>
  The claims about sequences speak of calls made one after the other on the same object.
  \<open>sendMessages\<close> makes the \<open>sendMessage\<close> calls of a list, whatever each returns or
  throws; \<open>attachLinks\<close> makes the \<open>attachLink\<close> calls of a list and keeps each outcome;
  \<open>processFrames\<close> hands a list of frames to \<open>_processFrame\<close> in order.
\<close>

fun sendMessages :: "session \<Rightarrow> (link \<times> message \<times> send_options \<times> int) list \<Rightarrow> session" where
  "sendMessages s [] = s"
| "sendMessages s ((l, msg, opts, now) # calls) =
     sendMessages (fst (sendMessage s l msg opts now)) calls"

fun attachLinks :: "session \<Rightarrow> link_policy list \<Rightarrow> session \<times> (error + link) list" where
  "attachLinks s [] = (s, [])"
| "attachLinks s (lp # lps) =
     (case attachLink s lp of
        Inl e \<Rightarrow> (let (s', rs) = attachLinks s lps in (s', Inl e # rs))
      | Inr (s1, l) \<Rightarrow> (let (s', rs) = attachLinks s1 lps in (s', Inr l # rs)))"

definition processFrames :: "int \<Rightarrow> session \<Rightarrow> frame list \<Rightarrow> session" where
  "processFrames dhm s frs = foldl (processFrame dhm) s frs"

text \<open>The effects of one cleanup by \<open>_unmap\<close> on local channel \<open>ch\<close>.\<close>

definition cleanup_effects :: "nat option \<Rightarrow> effect list" where
  "cleanup_effects c =
     (case c of
        None \<Rightarrow> []
      | Some ch \<Rightarrow> [Conn_removeListener, Conn_dissociateSession ch, Emit Unmapped])"

subsection \<open>A concrete session\<close>

text \<open>
  A mapped session on local channel 1 and remote channel 2, with windows of 10, two
  handles (0 and 1), one sender link filed under remote handle 5, and deliveries 11 and
  13 in flight.
\<close>

definition example_params :: session_params where
  "example_params =
     \<lparr>nextOutgoingId = 14, nextIncomingId = 0, incomingWindow = 10, outgoingWindow = 10,
      remoteIncomingWindow = 10, remoteOutgoingWindow = 10, handleMax = Some 1\<rparr>"

definition example_link :: link where
  "example_link = \<lparr>link_name = ''out'', link_handle = 0, link_role = sender\<rparr>"

definition example_session :: session where
  "example_session =
     \<lparr>mapped = True, channel = Some 1, remoteChannel = Some 2,
      allocatedHandles = [0 \<mapsto> Allocated example_link],
      linksByName = [''out'' \<mapsto> example_link],
      linksByRemoteHandle = [Val 5 \<mapsto> example_link],
      senderLinks = [example_link],
      transfersInFlight =
        [11 \<mapsto> \<lparr>tf_message = ''m11'', tf_options = [], tf_sent = 100\<rparr>,
         13 \<mapsto> \<lparr>tf_message = ''m13'', tf_options = [], tf_sent = 101\<rparr>],
      sessionSM = MAPPED,
      policy = \<lparr>options = example_params, enableSessionFlowControl = True\<rparr>,
      sessionParams = example_params,
      initialOutgoingId = 0,
      effects = []\<rparr>"

definition example_flow :: flow_frame where
  "example_flow =
     \<lparr>flow_nextIncomingId = Val 15, flow_incomingWindow = 5, flow_nextOutgoingId = 7,
      flow_outgoingWindow = 20, flow_handle = Undefined, flow_available = Undefined,
      flow_deliveryCount = Undefined, flow_drain = False\<rparr>"

definition example_flow_frame :: frame where
  "example_flow_frame = \<lparr>frame_channel = Some 2, performative = FlowFrame example_flow\<rparr>"

text \<open>A transfer on the remote channel for handle 7, under which no link is filed.\<close>

definition unroutable_transfer :: frame where
  "unroutable_transfer =
     \<lparr>frame_channel = Some 2,
      performative = TransferFrame \<lparr>transfer_handle = Val 7, transfer_deliveryId = Val 3\<rparr>\<rparr>"

text \<open>The same session when the peer's incoming window is used up.\<close>

definition exhausted_session :: session where
  "exhausted_session =
     example_session\<lparr>sessionParams := example_params\<lparr>remoteIncomingWindow := 0\<rparr>\<rparr>"


definition example_policy :: link_policy where
  "example_policy = \<lparr>lp_name = NameString ''in'', lp_role = receiver\<rparr>"

text \<open>The same object before \<open>begin\<close>: no channel, state UNMAPPED.\<close>

definition idle_session :: session where
  "idle_session =
     example_session\<lparr>mapped := False, channel := None, remoteChannel := None,
       sessionSM := UNMAPPED\<rparr>"

text \<open>The peer's Begin for local channel 1, sent on its channel 2, and its End.\<close>

definition example_begin :: frame where
  "example_begin =
     \<lparr>frame_channel = Some 2,
      performative = BeginFrame
        \<lparr>begin_remoteChannel = Some 1, begin_nextOutgoingId = 0, begin_incomingWindow = 50,
         begin_outgoingWindow = 50, begin_handleMax = None\<rparr>\<rparr>"

definition example_end :: frame where
  "example_end = \<lparr>frame_channel = Some 2, performative = EndFrame (Some ''closed'')\<rparr>"

text \<open>A session whose policy switches session flow control off, with windows of 2.\<close>

definition lenient_session :: session where
  "lenient_session =
     example_session
       \<lparr>policy := \<lparr>options = example_params, enableSessionFlowControl = False\<rparr>,
        sessionParams := example_params\<lparr>remoteIncomingWindow := 2, outgoingWindow := 2\<rparr>\<rparr>"

text \<open>
  A session without session flow control whose two send windows differ: the peer grants
  5 transfers, the local outgoing window is 0.
\<close>

definition uneven_session :: session where
  "uneven_session =
     example_session
       \<lparr>policy := \<lparr>options = example_params, enableSessionFlowControl = False\<rparr>,
        sessionParams := example_params\<lparr>remoteIncomingWindow := 5, outgoingWindow := 0\<rparr>\<rparr>"

text \<open>The example session with a second sender link.\<close>

definition two_senders :: session where
  "two_senders =
     example_session\<lparr>senderLinks :=
       [example_link, \<lparr>link_name = ''out2'', link_handle = 1, link_role = sender\<rparr>]\<rparr>"

text \<open>
  Modelled from the spec: the table \<open>_linksByRemoteHandle\<close> is written by the class
  \<open>Link\<close> (lib/link.js), which is not among the sources; no method of the session writes
  it. The spec (section 3) has it map the handle the peer assigned, an integer, to the
  link. So no link is filed under \<open>undefined\<close> or \<open>null\<close>.
\<close>

definition numeric_handles :: "session \<Rightarrow> bool" where
  "numeric_handles s =
     (linksByRemoteHandle s Undefined = None \<and> linksByRemoteHandle s Null = None)"

section \<open>Properties\<close>

subsection \<open>Fields that the helpers leave alone\<close>

lemma call_link_fields:
  "sessionParams (call_link s l c) = sessionParams s"
  "transfersInFlight (call_link s l c) = transfersInFlight s"
  "sessionSM (call_link s l c) = sessionSM s"
  "channel (call_link s l c) = channel s"
  "remoteChannel (call_link s l c) = remoteChannel s"
  "effects (call_link s l c) = effects s @ [LinkCall l c]"
  by (simp_all add: call_link_def)

lemma warn_fields:
  "sessionParams (warn s w) = sessionParams s"
  "transfersInFlight (warn s w) = transfersInFlight s"
  "sessionSM (warn s w) = sessionSM s"
  "channel (warn s w) = channel s"
  "remoteChannel (warn s w) = remoteChannel s"
  "effects (warn s w) = effects s @ [ConsoleWarn w]"
  by (simp_all add: warn_def)

lemma sendMessage_params:
  "sessionParams (fst (sendMessage s l msg opts now)) =
     (let p = sessionParams s in
      if remoteIncomingWindow p - 1 < 0 \<and> \<not> enableSessionFlowControl (policy s)
      then p\<lparr>nextOutgoingId := nextOutgoingId p + 1, remoteIncomingWindow := 0, outgoingWindow := 0\<rparr>
      else p\<lparr>nextOutgoingId := nextOutgoingId p + 1,
             remoteIncomingWindow := remoteIncomingWindow p - 1,
             outgoingWindow := outgoingWindow p - 1\<rparr>)"
  by (simp add: sendMessage_def Let_def call_link_def)

lemma sendMessage_nextOutgoingId:
  "nextOutgoingId (sessionParams (fst (sendMessage s l msg opts now))) =
     nextOutgoingId (sessionParams s) + 1"
  by (simp add: sendMessage_params Let_def)

lemma call_links_sessionParams:
  "sessionParams (foldl (\<lambda>acc l. call_link acc l c) s ls) = sessionParams s"
  by (induction ls arbitrary: s) (simp_all add: call_link_fields)

lemma call_links_effects:
  "effects (foldl (\<lambda>acc l. call_link acc l c) s ls) = effects s @ map (\<lambda>l. LinkCall l c) ls"
  by (induction ls arbitrary: s) (simp_all add: call_link_fields)

lemma accepted_non_begin:
  assumes "frame_channel fr = remoteChannel s" "remoteChannel s \<noteq> None"
    and "\<And>b. performative fr \<noteq> BeginFrame b"
  shows "processFrame dhm s fr = dispatch s fr"
  using assms by (cases "performative fr") (auto simp add: processFrame_def)

lemma flowReceived_params:
  "sessionParams (flowReceived s f) =
     (sessionParams s)\<lparr>nextIncomingId := flow_nextOutgoingId f,
        remoteOutgoingWindow := flow_outgoingWindow f,
        remoteIncomingWindow :=
          (case flow_nextIncomingId f of Val nii \<Rightarrow> nii | _ \<Rightarrow> initialOutgoingId s)
            + flow_incomingWindow f - nextOutgoingId (sessionParams s)\<rparr>"
  by (simp add: flowReceived_def Let_def split: jsopt.splits)

lemma dispatch_flow_params:
  "performative fr = FlowFrame f \<Longrightarrow> sessionParams (dispatch s fr) = sessionParams (flowReceived s f)"
  by (simp add: dispatch_def Let_def call_links_sessionParams call_link_fields warn_fields split: option.splits)

subsection \<open>Flow frames and the window of the peer\<close>

text \<open>
  C1. After \<open>_flowReceived\<close> the session's \<open>nextIncomingId\<close> is the frame's
  \<open>nextOutgoingId\<close> and its \<open>remoteOutgoingWindow\<close> is the frame's \<open>outgoingWindow\<close>.
  \<open>remoteIncomingWindow\<close> is \<open>_initialOutgoingId + frame.incomingWindow - nextOutgoingId\<close>
  when the frame's \<open>nextIncomingId\<close> is undefined or null, and
  \<open>frame.nextIncomingId + frame.incomingWindow - nextOutgoingId\<close> when it is there. A Flow
  frame accepted by \<open>_processFrame\<close> leaves the session with these parameters. Starting
  from \<open>nextOutgoingId = X\<close>, after three calls of \<open>sendMessage\<close> (whether they return or
  throw) and a Flow frame with \<open>nextIncomingId = X + 1\<close> and \<open>incomingWindow = 5\<close>, the
  window is 3.
\<close>

theorem flowReceived_recompute:
  "nextIncomingId (sessionParams (flowReceived s f)) = flow_nextOutgoingId f
   \<and> remoteOutgoingWindow (sessionParams (flowReceived s f)) = flow_outgoingWindow f
   \<and> (flow_nextIncomingId f = Undefined \<or> flow_nextIncomingId f = Null \<longrightarrow>
        remoteIncomingWindow (sessionParams (flowReceived s f)) =
          initialOutgoingId s + flow_incomingWindow f - nextOutgoingId (sessionParams s))
   \<and> (\<forall>nii. flow_nextIncomingId f = Val nii \<longrightarrow>
        remoteIncomingWindow (sessionParams (flowReceived s f)) =
          nii + flow_incomingWindow f - nextOutgoingId (sessionParams s))
   \<and> (frame_channel fr = remoteChannel s \<and> remoteChannel s \<noteq> None \<and> performative fr = FlowFrame f \<longrightarrow>
        sessionParams (processFrame dhm s fr) = sessionParams (flowReceived s f))
   \<and> (flow_nextIncomingId f = Val (nextOutgoingId (sessionParams s) + 1) \<and> flow_incomingWindow f = 5 \<longrightarrow>
        remoteIncomingWindow (sessionParams (flowReceived
          (fst (sendMessage (fst (sendMessage (fst (sendMessage s l1 m1 o1 t1)) l2 m2 o2 t2)) l3 m3 o3 t3)) f)) = 3)"
proof -
  have win: "sessionParams (processFrame dhm s fr) = sessionParams (flowReceived s f)"
    if "frame_channel fr = remoteChannel s" "remoteChannel s \<noteq> None" "performative fr = FlowFrame f"
    using that by (simp add: accepted_non_begin dispatch_flow_params)
  show ?thesis
    using win by (auto simp add: flowReceived_params sendMessage_nextOutgoingId)
qed

theorem flowReceived_recompute_witness:
  "flow_nextIncomingId example_flow = Val (nextOutgoingId (sessionParams example_session) + 1)
   \<and> flow_incomingWindow example_flow = 5
   \<and> remoteIncomingWindow (sessionParams (flowReceived
        (fst (sendMessage (fst (sendMessage (fst (sendMessage example_session
           example_link ''a'' [] 1)) example_link ''b'' [] 2)) example_link ''c'' [] 3))
        example_flow)) = 3
   \<and> frame_channel example_flow_frame = remoteChannel example_session
   \<and> remoteChannel example_session \<noteq> None
   \<and> performative example_flow_frame = FlowFrame example_flow
   \<and> remoteIncomingWindow (sessionParams (processFrame 255 example_session example_flow_frame)) = 6
   \<and> nextIncomingId (sessionParams (flowReceived example_session example_flow)) = 7"
  using flowReceived_recompute[where s = example_session and f = example_flow
      and fr = example_flow_frame and dhm = 255
      and ?l1.0 = example_link and ?m1.0 = "''a''" and ?o1.0 = "[]" and ?t1.0 = 1
      and ?l2.0 = example_link and ?m2.0 = "''b''" and ?o2.0 = "[]" and ?t2.0 = 2
      and ?l3.0 = example_link and ?m3.0 = "''c''" and ?o3.0 = "[]" and ?t3.0 = 3]
  by (simp add: example_flow_def example_flow_frame_def example_session_def example_params_def)

subsection \<open>Sending\<close>

text \<open>
  C3. Every call of \<open>sendMessage\<close> adds one to \<open>nextOutgoingId\<close>, and the id it assigns
  is the value before the call. When the decremented \<open>remoteIncomingWindow\<close> is not
  negative, both \<open>remoteIncomingWindow\<close> and \<open>outgoingWindow\<close> are one less and the
  message is sent: the in-flight table gets an entry under the assigned id and the link's
  \<open>_sendMessage\<close> is called with it. When it is negative and the policy enables session
  flow control, the call throws \<open>OverCapacityError\<close> and the three counters keep their
  updated values. When it is negative and flow control is off, both windows are set to
  zero and the message is sent as before.
\<close>

theorem sendMessage_accounting:
  "(let p = sessionParams s;
        r = sendMessage s l msg opts now;
        p' = sessionParams (fst r);
        sent = (snd r = Inr ()
                \<and> transfersInFlight (fst r) = (transfersInFlight s)
                     (nextOutgoingId p \<mapsto> \<lparr>tf_message = msg, tf_options = opts, tf_sent = now\<rparr>)
                \<and> effects (fst r) = effects s @ [LinkCall l (Call_sendMessage (nextOutgoingId p) msg opts)])
    in nextOutgoingId p' = nextOutgoingId p + 1
       \<and> (if remoteIncomingWindow p - 1 < 0 then
            (if enableSessionFlowControl (policy s) then
               snd r = Inl OverCapacityError
               \<and> remoteIncomingWindow p' = remoteIncomingWindow p - 1
               \<and> outgoingWindow p' = outgoingWindow p - 1
             else remoteIncomingWindow p' = 0 \<and> outgoingWindow p' = 0 \<and> sent)
          else remoteIncomingWindow p' = remoteIncomingWindow p - 1
               \<and> outgoingWindow p' = outgoingWindow p - 1 \<and> sent))"
  by (simp add: sendMessage_def Let_def call_link_def)

theorem sendMessage_accounting_witness:
  "nextOutgoingId (sessionParams (fst (sendMessage example_session example_link ''hello'' [] 200))) = 15
   \<and> remoteIncomingWindow (sessionParams (fst (sendMessage example_session example_link ''hello'' [] 200))) = 9
   \<and> outgoingWindow (sessionParams (fst (sendMessage example_session example_link ''hello'' [] 200))) = 9
   \<and> snd (sendMessage example_session example_link ''hello'' [] 200) = Inr ()
   \<and> transfersInFlight (fst (sendMessage example_session example_link ''hello'' [] 200)) 14 =
        Some \<lparr>tf_message = ''hello'', tf_options = [], tf_sent = 200\<rparr>
   \<and> snd (sendMessage exhausted_session example_link ''hello'' [] 200) = Inl OverCapacityError
   \<and> remoteIncomingWindow (sessionParams (fst (sendMessage exhausted_session example_link ''hello'' [] 200))) = - 1"
  using sendMessage_accounting[where s = example_session and l = example_link
      and msg = "''hello''" and opts = "[]" and now = 200]
    sendMessage_accounting[where s = exhausted_session and l = example_link
      and msg = "''hello''" and opts = "[]" and now = 200]
  by (simp add: Let_def exhausted_session_def example_session_def example_params_def)

text \<open>
  C9. \<open>sendMessage\<close> throws \<open>OverCapacityError\<close> exactly when flow control is enabled and
  the decremented \<open>remoteIncomingWindow\<close> is negative. The failed call leaves the
  in-flight table as it was and calls no link, although \<open>nextOutgoingId\<close>,
  \<open>remoteIncomingWindow\<close> and \<open>outgoingWindow\<close> have been updated: the id is used up and
  never tracked.
\<close>

theorem sendMessage_overCapacity_untracked:
  "(snd (sendMessage s l msg opts now) = Inl OverCapacityError) =
     (enableSessionFlowControl (policy s) \<and> remoteIncomingWindow (sessionParams s) - 1 < 0)
   \<and> (snd (sendMessage s l msg opts now) = Inl OverCapacityError \<longrightarrow>
        transfersInFlight (fst (sendMessage s l msg opts now)) = transfersInFlight s
        \<and> effects (fst (sendMessage s l msg opts now)) = effects s
        \<and> nextOutgoingId (sessionParams (fst (sendMessage s l msg opts now))) =
            nextOutgoingId (sessionParams s) + 1
        \<and> remoteIncomingWindow (sessionParams (fst (sendMessage s l msg opts now))) =
            remoteIncomingWindow (sessionParams s) - 1
        \<and> outgoingWindow (sessionParams (fst (sendMessage s l msg opts now))) =
            outgoingWindow (sessionParams s) - 1)"
  by (simp add: sendMessage_def Let_def call_link_def)

theorem sendMessage_overCapacity_untracked_witness:
  "snd (sendMessage exhausted_session example_link ''hello'' [] 200) = Inl OverCapacityError
   \<and> transfersInFlight (fst (sendMessage exhausted_session example_link ''hello'' [] 200)) 14 = None
   \<and> effects (fst (sendMessage exhausted_session example_link ''hello'' [] 200)) = []
   \<and> nextOutgoingId (sessionParams (fst (sendMessage exhausted_session example_link ''hello'' [] 200))) = 15"
  using sendMessage_overCapacity_untracked[where s = exhausted_session and l = example_link
      and msg = "''hello''" and opts = "[]" and now = 200]
  by (simp add: exhausted_session_def example_session_def example_params_def)

subsection \<open>Transfer frames\<close>

lemma dispatch_transfer:
  "performative fr = TransferFrame t \<Longrightarrow>
   dispatch s fr =
     (case transfer_target s t of
        Some l \<Rightarrow> call_link (transferReceived s t) l (Call_messageReceived fr)
      | None \<Rightarrow> warn s (UnknownTransfer fr))"
  by (simp add: dispatch_def)

lemma transferReceived_fields:
  "incomingWindow (sessionParams (transferReceived s t)) = incomingWindow (sessionParams s) - 1"
  "remoteOutgoingWindow (sessionParams (transferReceived s t)) = remoteOutgoingWindow (sessionParams s) - 1"
  "effects (transferReceived s t) = effects s"
  by (simp_all add: transferReceived_def Let_def split: jsopt.splits)

text \<open>
  The claim C2 reads: a Transfer frame on the remote channel whose handle matches no link
  still decrements \<open>incomingWindow\<close> and \<open>remoteOutgoingWindow\<close> before it is dropped.
  In the source \<open>_transferReceived\<close> is called inside the branch guarded by
  \<open>frame.handle !== null && _linksByRemoteHandle[frame.handle]\<close>, so the windows move only
  for a routable frame. Here the dispatcher runs on a transfer for handle 7, which is
  unknown to the example session: the incoming window stays at 10.
\<close>

theorem transfer_unknown_handle_counterexample:
  "frame_channel unroutable_transfer = remoteChannel example_session
   \<and> remoteChannel example_session \<noteq> None
   \<and> linksByRemoteHandle example_session (Val 7) = None
   \<and> incomingWindow (sessionParams example_session) = 10
   \<and> incomingWindow (sessionParams (processFrame 255 example_session unroutable_transfer)) \<noteq> 10 - 1
   \<and> remoteOutgoingWindow (sessionParams example_session) = 10
   \<and> remoteOutgoingWindow (sessionParams (processFrame 255 example_session unroutable_transfer)) \<noteq> 10 - 1"
  by (simp add: unroutable_transfer_def example_session_def example_params_def
        processFrame_def dispatch_def transfer_target_def warn_def)

text \<open>
  C2, as the source has it. An accepted Transfer frame whose handle is null or unknown is
  dropped with a warning, is delivered to no link and leaves the session parameters
  unchanged. An accepted Transfer frame whose handle is filed decrements
  \<open>incomingWindow\<close> and \<open>remoteOutgoingWindow\<close> by one and is delivered to the link filed
  under it.
\<close>

theorem transfer_window_only_when_routable:
  "frame_channel fr = remoteChannel s \<and> remoteChannel s \<noteq> None \<and> performative fr = TransferFrame t \<longrightarrow>
     (transfer_handle t = Null \<or> linksByRemoteHandle s (transfer_handle t) = None \<longrightarrow>
        processFrame dhm s fr = warn s (UnknownTransfer fr)
        \<and> sessionParams (processFrame dhm s fr) = sessionParams s
        \<and> effects (processFrame dhm s fr) = effects s @ [ConsoleWarn (UnknownTransfer fr)])
     \<and> (\<forall>l. transfer_handle t \<noteq> Null \<and> linksByRemoteHandle s (transfer_handle t) = Some l \<longrightarrow>
          incomingWindow (sessionParams (processFrame dhm s fr)) = incomingWindow (sessionParams s) - 1
          \<and> remoteOutgoingWindow (sessionParams (processFrame dhm s fr)) =
              remoteOutgoingWindow (sessionParams s) - 1
          \<and> effects (processFrame dhm s fr) = effects s @ [LinkCall l (Call_messageReceived fr)])"
proof (intro impI, elim conjE)
  assume a: "frame_channel fr = remoteChannel s" "remoteChannel s \<noteq> None"
     and t: "performative fr = TransferFrame t"
  have pf: "processFrame dhm s fr = dispatch s fr"
    using a t by (simp add: accepted_non_begin)
  show "(transfer_handle t = Null \<or> linksByRemoteHandle s (transfer_handle t) = None \<longrightarrow>
        processFrame dhm s fr = warn s (UnknownTransfer fr)
        \<and> sessionParams (processFrame dhm s fr) = sessionParams s
        \<and> effects (processFrame dhm s fr) = effects s @ [ConsoleWarn (UnknownTransfer fr)])
     \<and> (\<forall>l. transfer_handle t \<noteq> Null \<and> linksByRemoteHandle s (transfer_handle t) = Some l \<longrightarrow>
          incomingWindow (sessionParams (processFrame dhm s fr)) = incomingWindow (sessionParams s) - 1
          \<and> remoteOutgoingWindow (sessionParams (processFrame dhm s fr)) =
              remoteOutgoingWindow (sessionParams s) - 1
          \<and> effects (processFrame dhm s fr) = effects s @ [LinkCall l (Call_messageReceived fr)])"
    unfolding pf dispatch_transfer[OF t]
    by (auto simp add: transfer_target_def warn_fields call_link_fields transferReceived_fields)
qed

theorem transfer_window_only_when_routable_witness:
  "frame_channel unroutable_transfer = remoteChannel example_session
   \<and> remoteChannel example_session \<noteq> None
   \<and> performative unroutable_transfer =
        TransferFrame \<lparr>transfer_handle = Val 7, transfer_deliveryId = Val 3\<rparr>
   \<and> linksByRemoteHandle example_session (Val 7) = None
   \<and> sessionParams (processFrame 255 example_session unroutable_transfer) = example_params
   \<and> effects (processFrame 255 example_session unroutable_transfer) =
        [ConsoleWarn (UnknownTransfer unroutable_transfer)]"
  using transfer_window_only_when_routable[where s = example_session and fr = unroutable_transfer
      and t = "\<lparr>transfer_handle = Val 7, transfer_deliveryId = Val 3\<rparr>" and dhm = 255]
  by (simp add: unroutable_transfer_def example_session_def warn_def)

subsection \<open>Disposition frames\<close>





subsection \<open>Handle allocation\<close>

lemma scanHandles_Some:
  "scanHandles hid hmax alloc = Some h \<Longrightarrow>
     hid \<le> h \<and> h \<le> hmax \<and> alloc h = None \<and> (\<forall>h'. hid \<le> h' \<and> h' < h \<longrightarrow> alloc h' \<noteq> None)"
proof (induction hid hmax alloc rule: scanHandles.induct)
  case (1 hid hmax alloc)
  show ?case
  proof (cases "hid \<le> hmax \<and> alloc hid \<noteq> None")
    case True
    then have "scanHandles (hid + 1) hmax alloc = Some h"
      using "1.prems" by (subst (asm) scanHandles.simps) auto
    then have ih: "hid + 1 \<le> h \<and> h \<le> hmax \<and> alloc h = None
                   \<and> (\<forall>h'. hid + 1 \<le> h' \<and> h' < h \<longrightarrow> alloc h' \<noteq> None)"
      using "1.IH" True by simp
    have "alloc h' \<noteq> None" if "hid \<le> h'" "h' < h" for h'
    proof (cases "h' = hid")
      case True
      then show ?thesis using \<open>hid \<le> hmax \<and> alloc hid \<noteq> None\<close> by simp
    next
      case False
      then have "hid + 1 \<le> h'" using that by simp
      then show ?thesis using ih that by blast
    qed
    then show ?thesis using ih by auto
  next
    case False
    then show ?thesis
      using "1.prems" by (subst (asm) scanHandles.simps) (auto split: if_splits)
  qed
qed

lemma scanHandles_None:
  "(scanHandles hid hmax alloc = None) = (\<forall>h. hid \<le> h \<and> h \<le> hmax \<longrightarrow> alloc h \<noteq> None)"
proof (induction hid hmax alloc rule: scanHandles.induct)
  case (1 hid hmax alloc)
  show ?case
  proof (cases "hid \<le> hmax")
    case le: True
    show ?thesis
    proof (cases "alloc hid = None")
      case True
      then show ?thesis using le by (subst scanHandles.simps) auto
    next
      case False
      have "(scanHandles hid hmax alloc = None) = (scanHandles (hid + 1) hmax alloc = None)"
        using le False by (subst scanHandles.simps) auto
      also have "\<dots> = (\<forall>h. hid + 1 \<le> h \<and> h \<le> hmax \<longrightarrow> alloc h \<noteq> None)"
        using "1.IH" le False by simp
      also have "\<dots> = (\<forall>h. hid \<le> h \<and> h \<le> hmax \<longrightarrow> alloc h \<noteq> None)"
      proof
        assume r: "\<forall>h. hid + 1 \<le> h \<and> h \<le> hmax \<longrightarrow> alloc h \<noteq> None"
        show "\<forall>h. hid \<le> h \<and> h \<le> hmax \<longrightarrow> alloc h \<noteq> None"
        proof (intro allI impI)
          fix h assume "hid \<le> h \<and> h \<le> hmax"
          then show "alloc h \<noteq> None"
            using r False by (cases "h = hid") auto
        qed
      next
        assume "\<forall>h. hid \<le> h \<and> h \<le> hmax \<longrightarrow> alloc h \<noteq> None"
        then show "\<forall>h. hid + 1 \<le> h \<and> h \<le> hmax \<longrightarrow> alloc h \<noteq> None" by auto
      qed
      finally show ?thesis .
    qed
  next
    case False
    then show ?thesis by (subst scanHandles.simps) auto
  qed
qed

lemma attachLink_Inr:
  assumes "handleMax (sessionParams s) = Some H" "scanHandles 0 H (allocatedHandles s) = Some h"
  shows "attachLink s lp =
           Inr ((if lp_role lp = sender
                 then (\<lambda>x. x\<lparr>senderLinks := senderLinks s @
                         [\<lparr>link_name = resolve_name (lp_name lp), link_handle = h, link_role = lp_role lp\<rparr>]\<rparr>)
                 else (\<lambda>x. x))
                (s\<lparr>allocatedHandles := (allocatedHandles s)
                      (h \<mapsto> Allocated \<lparr>link_name = resolve_name (lp_name lp), link_handle = h, link_role = lp_role lp\<rparr>),
                   linksByName := (linksByName s)
                      (resolve_name (lp_name lp) \<mapsto> \<lparr>link_name = resolve_name (lp_name lp), link_handle = h, link_role = lp_role lp\<rparr>),
                   effects := effects s @
                      [LinkCall \<lparr>link_name = resolve_name (lp_name lp), link_handle = h, link_role = lp_role lp\<rparr> Call_attach]\<rparr>),
                \<lparr>link_name = resolve_name (lp_name lp), link_handle = h, link_role = lp_role lp\<rparr>)"
  using assms by (simp add: attachLink_def nextHandle_def Let_def call_link_def)

lemma attachLink_Inl:
  assumes "handleMax (sessionParams s) = Some H" "scanHandles 0 H (allocatedHandles s) = None"
  shows "attachLink s lp = Inl OverCapacityError"
  using assms by (simp add: attachLink_def nextHandle_def Let_def)

lemma attachLink_first_free:
  assumes hm: "handleMax (sessionParams s) = Some H"
  shows "(\<exists>h. 0 \<le> h \<and> h \<le> H \<and> allocatedHandles s h = None) \<longrightarrow>
           (\<exists>s' l. attachLink s lp = Inr (s', l)
              \<and> 0 \<le> link_handle l \<and> link_handle l \<le> H
              \<and> allocatedHandles s (link_handle l) = None
              \<and> (\<forall>h'. 0 \<le> h' \<and> h' < link_handle l \<longrightarrow> allocatedHandles s h' \<noteq> None)
              \<and> allocatedHandles s' = (allocatedHandles s)(link_handle l \<mapsto> Allocated l)
              \<and> handleMax (sessionParams s') = Some H)"
proof
  assume "\<exists>h. 0 \<le> h \<and> h \<le> H \<and> allocatedHandles s h = None"
  then have "scanHandles 0 H (allocatedHandles s) \<noteq> None"
    by (simp add: scanHandles_None)
  then obtain h where h: "scanHandles 0 H (allocatedHandles s) = Some h" by auto
  note at = attachLink_Inr[OF hm h, of lp]
  show "\<exists>s' l. attachLink s lp = Inr (s', l)
              \<and> 0 \<le> link_handle l \<and> link_handle l \<le> H
              \<and> allocatedHandles s (link_handle l) = None
              \<and> (\<forall>h'. 0 \<le> h' \<and> h' < link_handle l \<longrightarrow> allocatedHandles s h' \<noteq> None)
              \<and> allocatedHandles s' = (allocatedHandles s)(link_handle l \<mapsto> Allocated l)
              \<and> handleMax (sessionParams s') = Some H"
    using scanHandles_Some[OF h] hm unfolding at by auto
qed

lemma attachLink_full:
  assumes "handleMax (sessionParams s) = Some H"
    and "\<forall>h. 0 \<le> h \<and> h \<le> H \<longrightarrow> allocatedHandles s h \<noteq> None"
  shows "attachLink s lp = Inl OverCapacityError"
  using assms by (simp add: attachLink_Inl scanHandles_None)

lemma attachLinks_nth:
  assumes "handleMax (sessionParams s) = Some H"
    and "\<forall>h. 0 \<le> h \<and> h < int n \<longrightarrow> allocatedHandles s h \<noteq> None"
    and "\<forall>h. int n \<le> h \<and> h \<le> H \<longrightarrow> allocatedHandles s h = None"
    and "k < length lps"
  shows "snd (attachLinks s lps) ! k =
           (if int (n + k) \<le> H
            then Inr \<lparr>link_name = resolve_name (lp_name (lps ! k)), link_handle = int (n + k),
                      link_role = lp_role (lps ! k)\<rparr>
            else Inl OverCapacityError)"
  using assms
proof (induction lps arbitrary: s n k)
  case Nil
  then show ?case by simp
next
  case (Cons lp lps)
  show ?case
  proof (cases "int n \<le> H")
    case True
    have "0 \<le> int n \<and> int n \<le> H \<and> allocatedHandles s (int n) = None"
      using Cons.prems(3) True by simp
    then have "scanHandles 0 H (allocatedHandles s) \<noteq> None"
      unfolding scanHandles_None by blast
    then obtain h where h: "scanHandles 0 H (allocatedHandles s) = Some h" by auto
    have hn: "h = int n"
    proof -
      from scanHandles_Some[OF h]
      have f: "0 \<le> h" "h \<le> H" "allocatedHandles s h = None"
        and below: "\<forall>h'. 0 \<le> h' \<and> h' < h \<longrightarrow> allocatedHandles s h' \<noteq> None" by auto
      have "\<not> h < int n" using Cons.prems(2) f by auto
      moreover have "\<not> int n < h"
      proof
        assume lt: "int n < h"
        have "allocatedHandles s (int n) \<noteq> None" using below lt by simp
        moreover have "allocatedHandles s (int n) = None" using Cons.prems(3) True by simp
        ultimately show False by simp
      qed
      ultimately show ?thesis by simp
    qed
    note at = attachLink_Inr[OF Cons.prems(1) h, of lp]
    obtain s1 l where sl: "attachLink s lp = Inr (s1, l)" using at by blast
    have l: "l = \<lparr>link_name = resolve_name (lp_name lp), link_handle = int n, link_role = lp_role lp\<rparr>"
      using sl at hn by simp
    have s1a: "allocatedHandles s1 = (allocatedHandles s)(int n \<mapsto> Allocated l)"
      using sl at hn l by (auto split: if_splits)
    have s1h: "handleMax (sessionParams s1) = Some H"
      using sl at Cons.prems(1) by (auto split: if_splits)
    show ?thesis
    proof (cases k)
      case 0
      then show ?thesis using sl l True by (simp add: split_def Let_def)
    next
      case (Suc k')
      have "snd (attachLinks s1 lps) ! k' =
              (if int (Suc n + k') \<le> H
               then Inr \<lparr>link_name = resolve_name (lp_name (lps ! k')), link_handle = int (Suc n + k'),
                         link_role = lp_role (lps ! k')\<rparr>
               else Inl OverCapacityError)"
      proof (rule Cons.IH[OF s1h])
        show "\<forall>h. 0 \<le> h \<and> h < int (Suc n) \<longrightarrow> allocatedHandles s1 h \<noteq> None"
          using Cons.prems(2) by (auto simp add: s1a)
        show "\<forall>h. int (Suc n) \<le> h \<and> h \<le> H \<longrightarrow> allocatedHandles s1 h = None"
          using Cons.prems(3) by (auto simp add: s1a)
        show "k' < length lps" using Cons.prems(4) Suc by simp
      qed
      then show ?thesis using sl Suc by (simp add: split_def Let_def)
    qed
  next
    case False
    have full: "\<forall>h. 0 \<le> h \<and> h \<le> H \<longrightarrow> allocatedHandles s h \<noteq> None"
      using Cons.prems(2) False by auto
    have inl: "attachLink s lp = Inl OverCapacityError"
      using attachLink_full[OF Cons.prems(1) full] .
    show ?thesis
    proof (cases k)
      case 0
      then show ?thesis using inl False by (simp add: split_def Let_def)
    next
      case (Suc k')
      have "snd (attachLinks s lps) ! k' =
              (if int (n + k') \<le> H
               then Inr \<lparr>link_name = resolve_name (lp_name (lps ! k')), link_handle = int (n + k'),
                         link_role = lp_role (lps ! k')\<rparr>
               else Inl OverCapacityError)"
        using Cons.IH[OF Cons.prems(1) Cons.prems(2) Cons.prems(3)] Cons.prems(4) Suc by simp
      then show ?thesis using inl Suc False by (simp add: split_def Let_def)
    qed
  qed
qed

text \<open>
  C6. With \<open>handleMax = H\<close>: if some handle in 0..H is free, \<open>attachLink\<close> succeeds and
  the new link's handle is the first free one, that is, it lies in 0..H, was not
  allocated before the call, and every smaller handle was; after the call it is
  allocated to the new link. If every handle in 0..H is allocated, \<open>attachLink\<close> throws
  \<open>OverCapacityError\<close>. So in a run of attaches on a session with no handle taken, the
  k-th attach gets handle k - 1 as long as k is at most H + 1, and every later one fails.
\<close>

theorem attachLink_first_free_handle:
  "handleMax (sessionParams s) = Some H \<longrightarrow>
     ((\<exists>h. 0 \<le> h \<and> h \<le> H \<and> allocatedHandles s h = None) \<longrightarrow>
        (\<exists>s' l. attachLink s lp = Inr (s', l)
           \<and> 0 \<le> link_handle l \<and> link_handle l \<le> H
           \<and> allocatedHandles s (link_handle l) = None
           \<and> (\<forall>h'. 0 \<le> h' \<and> h' < link_handle l \<longrightarrow> allocatedHandles s h' \<noteq> None)
           \<and> allocatedHandles s' = (allocatedHandles s)(link_handle l \<mapsto> Allocated l)
           \<and> handleMax (sessionParams s') = Some H))
     \<and> ((\<forall>h. 0 \<le> h \<and> h \<le> H \<longrightarrow> allocatedHandles s h \<noteq> None) \<longrightarrow>
          attachLink s lp = Inl OverCapacityError)
     \<and> ((\<forall>h. 0 \<le> h \<and> h \<le> H \<longrightarrow> allocatedHandles s h = None) \<longrightarrow>
          (\<forall>k < length lps.
             snd (attachLinks s lps) ! k =
               (if int k \<le> H
                then Inr \<lparr>link_name = resolve_name (lp_name (lps ! k)), link_handle = int k,
                          link_role = lp_role (lps ! k)\<rparr>
                else Inl OverCapacityError)))"
proof
  assume hm: "handleMax (sessionParams s) = Some H"
  have seq: "\<forall>k < length lps.
             snd (attachLinks s lps) ! k =
               (if int k \<le> H
                then Inr \<lparr>link_name = resolve_name (lp_name (lps ! k)), link_handle = int k,
                          link_role = lp_role (lps ! k)\<rparr>
                else Inl OverCapacityError)"
    if free: "\<forall>h. 0 \<le> h \<and> h \<le> H \<longrightarrow> allocatedHandles s h = None"
  proof (intro allI impI)
    fix k assume k: "k < length lps"
    have none: "\<forall>h. 0 \<le> h \<and> h < int 0 \<longrightarrow> allocatedHandles s h \<noteq> None" by auto
    have rest: "\<forall>h. int 0 \<le> h \<and> h \<le> H \<longrightarrow> allocatedHandles s h = None" using free by simp
    show "snd (attachLinks s lps) ! k =
               (if int k \<le> H
                then Inr \<lparr>link_name = resolve_name (lp_name (lps ! k)), link_handle = int k,
                          link_role = lp_role (lps ! k)\<rparr>
                else Inl OverCapacityError)"
      using attachLinks_nth[OF hm none rest k] by simp
  qed
  show "((\<exists>h. 0 \<le> h \<and> h \<le> H \<and> allocatedHandles s h = None) \<longrightarrow>
        (\<exists>s' l. attachLink s lp = Inr (s', l)
           \<and> 0 \<le> link_handle l \<and> link_handle l \<le> H
           \<and> allocatedHandles s (link_handle l) = None
           \<and> (\<forall>h'. 0 \<le> h' \<and> h' < link_handle l \<longrightarrow> allocatedHandles s h' \<noteq> None)
           \<and> allocatedHandles s' = (allocatedHandles s)(link_handle l \<mapsto> Allocated l)
           \<and> handleMax (sessionParams s') = Some H))
     \<and> ((\<forall>h. 0 \<le> h \<and> h \<le> H \<longrightarrow> allocatedHandles s h \<noteq> None) \<longrightarrow>
          attachLink s lp = Inl OverCapacityError)
     \<and> ((\<forall>h. 0 \<le> h \<and> h \<le> H \<longrightarrow> allocatedHandles s h = None) \<longrightarrow>
          (\<forall>k < length lps.
             snd (attachLinks s lps) ! k =
               (if int k \<le> H
                then Inr \<lparr>link_name = resolve_name (lp_name (lps ! k)), link_handle = int k,
                          link_role = lp_role (lps ! k)\<rparr>
                else Inl OverCapacityError)))"
    using attachLink_first_free[OF hm, of lp] attachLink_full[OF hm, of lp] seq by blast
qed

theorem attachLink_first_free_handle_witness:
  "handleMax (sessionParams example_session) = Some 1
   \<and> allocatedHandles example_session 1 = None
   \<and> map_sum id (link_handle \<circ> snd) (attachLink example_session example_policy) = Inr 1
   \<and> map (map_sum id link_handle)
        (snd (attachLinks (example_session\<lparr>allocatedHandles := Map.empty\<rparr>)
                [example_policy, example_policy, example_policy])) =
      [Inr 0, Inr 1, Inl OverCapacityError]"
  using attachLink_first_free_handle[where s = example_session and H = 1 and lp = example_policy]
    attachLink_first_free_handle[where s = "example_session\<lparr>allocatedHandles := Map.empty\<rparr>"
      and H = 1 and lps = "[example_policy, example_policy, example_policy]"]
  by (simp add: example_session_def example_params_def example_policy_def example_link_def
        attachLink_def nextHandle_def scanHandles.simps Let_def call_link_def)

subsection \<open>Runs of sends without flow control\<close>

lemma sendMessage_policy:
  "policy (fst (sendMessage s l msg opts now)) = policy s"
  by (simp add: sendMessage_def Let_def call_link_def)

lemma sendMessage_no_flow_control:
  assumes "\<not> enableSessionFlowControl (policy s)"
  shows "snd (sendMessage s l msg opts now) = Inr ()"
    and "remoteIncomingWindow (sessionParams (fst (sendMessage s l msg opts now))) =
           max 0 (remoteIncomingWindow (sessionParams s) - 1)"
    and "outgoingWindow (sessionParams (fst (sendMessage s l msg opts now))) =
           (if remoteIncomingWindow (sessionParams s) - 1 < 0 then 0
            else outgoingWindow (sessionParams s) - 1)"
  using assms by (simp_all add: sendMessage_def Let_def call_link_def)

lemma sendMessages_windows_general:
  assumes "\<not> enableSessionFlowControl (policy s)"
    and "remoteIncomingWindow (sessionParams s) = rw" "outgoingWindow (sessionParams s) = ow"
    and "0 \<le> rw \<or> calls \<noteq> []"
  shows "remoteIncomingWindow (sessionParams (sendMessages s calls)) = max 0 (rw - int (length calls))
         \<and> outgoingWindow (sessionParams (sendMessages s calls)) =
             (if int (length calls) \<le> rw then ow - int (length calls) else 0)"
  using assms
proof (induction calls arbitrary: s rw ow)
  case Nil
  then show ?case by simp
next
  case (Cons c calls)
  obtain l msg opts now where c: "c = (l, msg, opts, now)" by (cases c) auto
  let ?s1 = "fst (sendMessage s l msg opts now)"
  let ?r1 = "max 0 (rw - 1)"
  let ?o1 = "if rw - 1 < 0 then 0 else ow - 1"
  have p: "\<not> enableSessionFlowControl (policy ?s1)"
    using Cons.prems(1) by (simp add: sendMessage_policy)
  have r: "remoteIncomingWindow (sessionParams ?s1) = ?r1"
    using sendMessage_no_flow_control(2)[OF Cons.prems(1)] Cons.prems(2) by simp
  have o: "outgoingWindow (sessionParams ?s1) = ?o1"
    using sendMessage_no_flow_control(3)[OF Cons.prems(1)] Cons.prems(2,3) by simp
  have ih: "remoteIncomingWindow (sessionParams (sendMessages ?s1 calls)) = max 0 (?r1 - int (length calls))
         \<and> outgoingWindow (sessionParams (sendMessages ?s1 calls)) =
             (if int (length calls) \<le> ?r1 then ?o1 - int (length calls) else 0)"
    by (rule Cons.IH[OF p r o]) simp
  show ?case
  proof (cases "rw - 1 < 0")
    case True
    then show ?thesis using ih by (simp add: c)
  next
    case False
    then show ?thesis using ih by (simp add: c)
  qed
qed

text \<open>
  The claim C7 ends: neither counter is ever left negative when flow control is disabled.
  \<open>sendMessage\<close> resets the two windows only when the decremented
  \<open>remoteIncomingWindow\<close> is negative, so \<open>outgoingWindow\<close> is not guarded on its own.
  Here flow control is off, the peer's window is 5 and the outgoing window is 0: one send
  returns normally and leaves \<open>outgoingWindow\<close> at -1.
\<close>

theorem sendMessage_outgoing_negative_counterexample:
  "\<not> enableSessionFlowControl (policy uneven_session)
   \<and> remoteIncomingWindow (sessionParams uneven_session) = 5
   \<and> outgoingWindow (sessionParams uneven_session) = 0
   \<and> snd (sendMessage uneven_session example_link ''a'' [] 1) = Inr ()
   \<and> outgoingWindow (sessionParams (fst (sendMessage uneven_session example_link ''a'' [] 1))) = - 1
   \<and> outgoingWindow (sessionParams (fst (sendMessage uneven_session example_link ''a'' [] 1))) < 0"
  by (simp add: uneven_session_def example_session_def example_params_def sendMessage_def
        Let_def call_link_def)

text \<open>
  C7, as the source has it. With session flow control off, let \<open>remoteIncomingWindow\<close> be
  \<open>rw\<close> and \<open>outgoingWindow\<close> be \<open>ow\<close> before the first of M calls of \<open>sendMessage\<close> in a
  row (\<open>rw\<close> not negative, or M at least 1). Afterwards \<open>remoteIncomingWindow\<close> is
  \<open>max 0 (rw - M)\<close>, and \<open>outgoingWindow\<close> is \<open>ow - M\<close> as long as M is at most \<open>rw\<close> and 0
  from then on. When the two start at a common value, both are \<open>max 0 (initial - M)\<close>.
  \<open>remoteIncomingWindow\<close> is not negative after any of the calls. \<open>outgoingWindow\<close> is
  not negative after any of the calls when it starts at or above \<open>remoteIncomingWindow\<close>;
  it is negative after the n-th call whenever n is at most \<open>rw\<close> and more than \<open>ow\<close>.
\<close>

theorem sendMessages_windows_without_flow_control:
  "\<not> enableSessionFlowControl (policy s)
   \<and> remoteIncomingWindow (sessionParams s) = rw \<and> outgoingWindow (sessionParams s) = ow
   \<and> (0 \<le> rw \<or> calls \<noteq> []) \<longrightarrow>
     remoteIncomingWindow (sessionParams (sendMessages s calls)) = max 0 (rw - int (length calls))
     \<and> outgoingWindow (sessionParams (sendMessages s calls)) =
         (if int (length calls) \<le> rw then ow - int (length calls) else 0)
     \<and> (ow = rw \<longrightarrow>
          outgoingWindow (sessionParams (sendMessages s calls)) = max 0 (rw - int (length calls)))
     \<and> (\<forall>n \<le> length calls. 0 \<le> rw \<or> 0 < n \<longrightarrow>
           0 \<le> remoteIncomingWindow (sessionParams (sendMessages s (take n calls))))
     \<and> (rw \<le> ow \<longrightarrow>
          (\<forall>n \<le> length calls. 0 \<le> rw \<or> 0 < n \<longrightarrow>
             0 \<le> outgoingWindow (sessionParams (sendMessages s (take n calls)))))
     \<and> (\<forall>n \<le> length calls. int n \<le> rw \<and> ow < int n \<longrightarrow>
           outgoingWindow (sessionParams (sendMessages s (take n calls))) < 0)"
proof (intro impI, elim conjE)
  assume a: "\<not> enableSessionFlowControl (policy s)"
    "remoteIncomingWindow (sessionParams s) = rw" "outgoingWindow (sessionParams s) = ow"
    and w: "0 \<le> rw \<or> calls \<noteq> []"
  have all: "remoteIncomingWindow (sessionParams (sendMessages s cs)) = max 0 (rw - int (length cs))
         \<and> outgoingWindow (sessionParams (sendMessages s cs)) =
             (if int (length cs) \<le> rw then ow - int (length cs) else 0)"
    if "0 \<le> rw \<or> cs \<noteq> []" for cs
    using sendMessages_windows_general[OF a(1) a(2) a(3) that] .
  have pre: "remoteIncomingWindow (sessionParams (sendMessages s (take n calls))) = max 0 (rw - int n)
         \<and> outgoingWindow (sessionParams (sendMessages s (take n calls))) =
             (if int n \<le> rw then ow - int n else 0)"
    if n: "n \<le> length calls" "0 \<le> rw \<or> 0 < n" for n
  proof -
    have "0 \<le> rw \<or> take n calls \<noteq> []" using n by auto
    from all[OF this] show ?thesis using n(1) by (simp add: min_absorb2)
  qed
  have neg: "outgoingWindow (sessionParams (sendMessages s (take n calls))) < 0"
    if n: "n \<le> length calls" "int n \<le> rw \<and> ow < int n" for n
  proof -
    have "0 \<le> rw \<or> 0 < n" using n(2) by linarith
    from pre[OF n(1) this] show ?thesis using n(2) by simp
  qed
  have c1: "remoteIncomingWindow (sessionParams (sendMessages s calls)) = max 0 (rw - int (length calls))"
    and c2: "outgoingWindow (sessionParams (sendMessages s calls)) =
         (if int (length calls) \<le> rw then ow - int (length calls) else 0)"
    using all[OF w] by simp_all
  have c3: "ow = rw \<longrightarrow>
          outgoingWindow (sessionParams (sendMessages s calls)) = max 0 (rw - int (length calls))"
    using c2 by auto
  have c4: "\<forall>n \<le> length calls. 0 \<le> rw \<or> 0 < n \<longrightarrow>
           0 \<le> remoteIncomingWindow (sessionParams (sendMessages s (take n calls)))"
    using pre by simp
  have c5: "rw \<le> ow \<longrightarrow>
          (\<forall>n \<le> length calls. 0 \<le> rw \<or> 0 < n \<longrightarrow>
             0 \<le> outgoingWindow (sessionParams (sendMessages s (take n calls))))"
    using pre by auto
  have c6: "\<forall>n \<le> length calls. int n \<le> rw \<and> ow < int n \<longrightarrow>
           outgoingWindow (sessionParams (sendMessages s (take n calls))) < 0"
    using neg by blast
  show "remoteIncomingWindow (sessionParams (sendMessages s calls)) = max 0 (rw - int (length calls))
     \<and> outgoingWindow (sessionParams (sendMessages s calls)) =
         (if int (length calls) \<le> rw then ow - int (length calls) else 0)
     \<and> (ow = rw \<longrightarrow>
          outgoingWindow (sessionParams (sendMessages s calls)) = max 0 (rw - int (length calls)))
     \<and> (\<forall>n \<le> length calls. 0 \<le> rw \<or> 0 < n \<longrightarrow>
           0 \<le> remoteIncomingWindow (sessionParams (sendMessages s (take n calls))))
     \<and> (rw \<le> ow \<longrightarrow>
          (\<forall>n \<le> length calls. 0 \<le> rw \<or> 0 < n \<longrightarrow>
             0 \<le> outgoingWindow (sessionParams (sendMessages s (take n calls)))))
     \<and> (\<forall>n \<le> length calls. int n \<le> rw \<and> ow < int n \<longrightarrow>
           outgoingWindow (sessionParams (sendMessages s (take n calls))) < 0)"
    using c1 c2 c3 c4 c5 c6 by blast
qed

theorem sendMessages_windows_without_flow_control_witness:
  "\<not> enableSessionFlowControl (policy lenient_session)
   \<and> remoteIncomingWindow (sessionParams lenient_session) = 2
   \<and> outgoingWindow (sessionParams lenient_session) = 2
   \<and> remoteIncomingWindow (sessionParams (sendMessages lenient_session
        [(example_link, ''a'', [], 1), (example_link, ''b'', [], 2), (example_link, ''c'', [], 3)])) = 0
   \<and> outgoingWindow (sessionParams (sendMessages lenient_session
        [(example_link, ''a'', [], 1), (example_link, ''b'', [], 2), (example_link, ''c'', [], 3)])) = 0
   \<and> \<not> enableSessionFlowControl (policy uneven_session)
   \<and> remoteIncomingWindow (sessionParams uneven_session) = 5
   \<and> outgoingWindow (sessionParams uneven_session) = 0
   \<and> remoteIncomingWindow (sessionParams (sendMessages uneven_session
        [(example_link, ''a'', [], 1), (example_link, ''b'', [], 2)])) = 3
   \<and> outgoingWindow (sessionParams (sendMessages uneven_session
        [(example_link, ''a'', [], 1), (example_link, ''b'', [], 2)])) = - 2"
  using sendMessages_windows_without_flow_control[where s = lenient_session and rw = 2 and ow = 2
      and calls = "[(example_link, ''a'', [], 1), (example_link, ''b'', [], 2), (example_link, ''c'', [], 3)]"]
    sendMessages_windows_without_flow_control[where s = uneven_session and rw = 5 and ow = 0
      and calls = "[(example_link, ''a'', [], 1), (example_link, ''b'', [], 2)]"]
  by (simp add: lenient_session_def uneven_session_def example_session_def example_params_def)

subsection \<open>Ending a session\<close>

lemma unmap_fields:
  "sessionSM (unmap s) = sessionSM s"
  "channel (unmap s) = None"
  "effects (unmap s) = effects s @ cleanup_effects (channel s)"
  "channel s \<noteq> None \<Longrightarrow> remoteChannel (unmap s) = None"
  "channel s = None \<Longrightarrow> unmap s = s"
  by (auto simp add: unmap_def cleanup_effects_def split: option.splits)

lemma sendEnd_fields:
  "sessionSM (sendEnd s) = sessionSM s"
  "channel (sendEnd s) = channel s"
  "remoteChannel (sendEnd s) = remoteChannel s"
  "effects (sendEnd s) = effects s @ [Conn_sendFrame \<lparr>frame_channel = channel s, performative = EndFrame None\<rparr>]"
  by (simp_all add: sendEnd_def sendFrame_def)

text \<open>
  C8. \<open>end()\<close> on a session whose \<open>remoteChannel\<close> is undefined leaves the state machine
  where it is and sends no frame: it warns and calls \<open>_unmap\<close>, which cleans up when a
  local channel is held. With \<open>remoteChannel\<close> defined, \<open>end()\<close> fires \<open>sendEnd\<close>, sends
  an End frame on the local channel, and cleans up within the call only if the state
  machine is then in UNMAPPED; otherwise the channels and the \<open>mapped\<close> flag stay.
\<close>

theorem session_end_cases:
  "(remoteChannel s = None \<longrightarrow>
      sessionSM (session_end s) = sessionSM s
      \<and> effects (session_end s) =
          effects s @ [ConsoleWarn (EndBeforeMapped (channel s))] @ cleanup_effects (channel s)
      \<and> channel (session_end s) = None
      \<and> remoteChannel (session_end s) = None)
   \<and> (remoteChannel s \<noteq> None \<longrightarrow>
      sessionSM (session_end s) = sm_sendEnd (sessionSM s)
      \<and> effects (session_end s) =
          effects s @ [Conn_sendFrame \<lparr>frame_channel = channel s, performative = EndFrame None\<rparr>]
            @ (if sm_sendEnd (sessionSM s) = UNMAPPED then cleanup_effects (channel s) else [])
      \<and> (sm_sendEnd (sessionSM s) \<noteq> UNMAPPED \<longrightarrow>
            channel (session_end s) = channel s \<and> remoteChannel (session_end s) = remoteChannel s
            \<and> mapped (session_end s) = mapped s))"
  by (auto simp add: session_end_def Let_def unmap_fields sendEnd_fields warn_fields
        warn_def sendEnd_def sendFrame_def unmap_def cleanup_effects_def split: option.splits)

theorem session_end_cases_witness:
  "remoteChannel idle_session = None
   \<and> sessionSM (session_end idle_session) = UNMAPPED
   \<and> effects (session_end idle_session) = [ConsoleWarn (EndBeforeMapped None)]
   \<and> effects (session_end (session_begin idle_session (policy idle_session) 1)) =
        effects (session_begin idle_session (policy idle_session) 1)
        @ [ConsoleWarn (EndBeforeMapped (Some 1)),
           Conn_removeListener, Conn_dissociateSession 1, Emit Unmapped]
   \<and> sessionSM (session_end (session_begin idle_session (policy idle_session) 1)) = BEGIN_SENT
   \<and> remoteChannel example_session \<noteq> None
   \<and> sessionSM (session_end example_session) = END_SENT
   \<and> effects (session_end example_session) =
        [Conn_sendFrame \<lparr>frame_channel = Some 1, performative = EndFrame None\<rparr>]
   \<and> channel (session_end example_session) = Some 1"
  using session_end_cases[where s = idle_session]
    session_end_cases[where s = "session_begin idle_session (policy idle_session) 1"]
    session_end_cases[where s = example_session]
  by (simp add: idle_session_def example_session_def session_begin_def Let_def cleanup_effects_def)

subsection \<open>Flow frames and their handle\<close>

lemma flowReceived_other_fields:
  "effects (flowReceived s f) = effects s"
  "linksByRemoteHandle (flowReceived s f) = linksByRemoteHandle s"
  "senderLinks (flowReceived s f) = senderLinks s"
  by (simp_all add: flowReceived_def Let_def split: jsopt.splits)

lemma dispatch_flow_effects:
  assumes "performative fr = FlowFrame f"
  shows "effects (dispatch s fr) =
           effects s @
             (if flow_handle f \<noteq> Null then
                (case linksByRemoteHandle s (flow_handle f) of
                   Some l \<Rightarrow> [LinkCall l (Call_flowReceived fr)]
                 | None \<Rightarrow> [ConsoleWarn (UnknownFlow fr)])
              else map (\<lambda>l. LinkCall l (Call_flowReceived fr)) (senderLinks s))"
  using assms
  by (simp add: dispatch_def Let_def call_links_effects call_link_fields warn_fields
        flowReceived_other_fields split: option.splits)

lemma table_untouched:
  "linksByRemoteHandle (call_link s l c) = linksByRemoteHandle s"
  "linksByRemoteHandle (warn s w) = linksByRemoteHandle s"
  "linksByRemoteHandle (foldl (\<lambda>acc l. call_link acc l c) s ls) = linksByRemoteHandle s"
proof -
  show c: "linksByRemoteHandle (call_link s l c) = linksByRemoteHandle s" for s l
    by (simp add: call_link_def)
  show "linksByRemoteHandle (warn s w) = linksByRemoteHandle s"
    by (simp add: warn_def)
  show "linksByRemoteHandle (foldl (\<lambda>acc l. call_link acc l c) s ls) = linksByRemoteHandle s"
    by (induction ls arbitrary: s) (simp_all add: c)
qed

lemma dispatch_flow_table:
  "performative fr = FlowFrame f \<Longrightarrow> linksByRemoteHandle (dispatch s fr) = linksByRemoteHandle s"
  by (simp add: dispatch_def Let_def table_untouched flowReceived_other_fields split: option.splits)

lemma unmap_table: "linksByRemoteHandle (unmap s) = linksByRemoteHandle s"
  by (simp add: unmap_def split: option.splits)

lemma dispatch_table: "linksByRemoteHandle (dispatch s fr) = linksByRemoteHandle s"
proof (cases "performative fr")
  case (FlowFrame f)
  then show ?thesis by (rule dispatch_flow_table)
next
  case (EndFrame err)
  then show ?thesis
    by (simp add: dispatch_def Let_def unmap_table sendEnd_def sendFrame_def endReceived_def
          emit_def split: option.splits)
next
  case (TransferFrame t)
  then show ?thesis
    by (simp add: dispatch_def table_untouched transferReceived_def Let_def
          split: option.splits jsopt.splits)
qed (simp_all add: dispatch_def Let_def table_untouched emit_def split: option.splits)

lemma session_keeps_table:
  "linksByRemoteHandle (processFrame dhm s fr) = linksByRemoteHandle s"
  "linksByRemoteHandle (fst (sendMessage s l msg opts now)) = linksByRemoteHandle s"
  "linksByRemoteHandle (session_begin s pol ch) = linksByRemoteHandle s"
  "linksByRemoteHandle (session_end s) = linksByRemoteHandle s"
  "linksByRemoteHandle (addWindow s n) = linksByRemoteHandle s"
  "attachLink s lp = Inr (s', k) \<Longrightarrow> linksByRemoteHandle s' = linksByRemoteHandle s"
proof -
  show "linksByRemoteHandle (processFrame dhm s fr) = linksByRemoteHandle s"
    by (cases "performative fr")
       (simp_all add: processFrame_def dispatch_table beginReceived_def Let_def emit_def)
  show "linksByRemoteHandle (fst (sendMessage s l msg opts now)) = linksByRemoteHandle s"
    by (simp add: sendMessage_def Let_def call_link_def)
  show "linksByRemoteHandle (session_begin s pol ch) = linksByRemoteHandle s"
    by (simp add: session_begin_def Let_def)
  show "linksByRemoteHandle (session_end s) = linksByRemoteHandle s"
    by (simp add: session_end_def Let_def unmap_table sendEnd_def sendFrame_def warn_def)
  show "linksByRemoteHandle (addWindow s n) = linksByRemoteHandle s"
    by (simp add: addWindow_def Let_def sendFrame_def)
  show "attachLink s lp = Inr (s', k) \<Longrightarrow> linksByRemoteHandle s' = linksByRemoteHandle s"
    by (auto simp add: attachLink_def nextHandle_def Let_def call_link_def
          split: option.splits sum.splits if_splits)
qed

text \<open>
  C10. For every accepted Flow frame the session's parameters are those that
  \<open>_flowReceived\<close> computes, whatever the handle. The frame goes to every sender link
  exactly when its handle is \<open>null\<close>. With any other handle, a number or \<open>undefined\<close>, the
  handle is looked up in \<open>_linksByRemoteHandle\<close> and the frame goes to the one link filed
  under it, or is answered with a warning and reaches no link, sender links included,
  when there is none. No link is filed under \<open>undefined\<close> (the keys are the peer's
  numeric handles, and no method of the session writes the table), so a frame with an
  undefined handle is answered with the warning.
\<close>

theorem flow_undefined_handle_not_broadcast:
  "frame_channel fr = remoteChannel s \<and> remoteChannel s \<noteq> None \<and> performative fr = FlowFrame f \<longrightarrow>
     sessionParams (processFrame dhm s fr) = sessionParams (flowReceived s f)
     \<and> effects (processFrame dhm s fr) =
         effects s @
           (if flow_handle f = Null
            then map (\<lambda>l. LinkCall l (Call_flowReceived fr)) (senderLinks s)
            else (case linksByRemoteHandle s (flow_handle f) of
                    Some l \<Rightarrow> [LinkCall l (Call_flowReceived fr)]
                  | None \<Rightarrow> [ConsoleWarn (UnknownFlow fr)]))
     \<and> (flow_handle f = Null \<longrightarrow>
          effects (processFrame dhm s fr) =
            effects s @ map (\<lambda>l. LinkCall l (Call_flowReceived fr)) (senderLinks s))
     \<and> (\<forall>h. flow_handle f = Val h \<longrightarrow>
          effects (processFrame dhm s fr) =
            effects s @ (case linksByRemoteHandle s (Val h) of
                           Some l \<Rightarrow> [LinkCall l (Call_flowReceived fr)]
                         | None \<Rightarrow> [ConsoleWarn (UnknownFlow fr)]))
     \<and> (flow_handle f = Undefined \<longrightarrow>
          effects (processFrame dhm s fr) =
            effects s @ (case linksByRemoteHandle s Undefined of
                           Some l \<Rightarrow> [LinkCall l (Call_flowReceived fr)]
                         | None \<Rightarrow> [ConsoleWarn (UnknownFlow fr)]))
     \<and> (flow_handle f = Undefined \<and> linksByRemoteHandle s Undefined = None \<longrightarrow>
          effects (processFrame dhm s fr) = effects s @ [ConsoleWarn (UnknownFlow fr)])
     \<and> (flow_handle f = Undefined \<and> numeric_handles s \<longrightarrow>
          effects (processFrame dhm s fr) = effects s @ [ConsoleWarn (UnknownFlow fr)])
     \<and> (numeric_handles s \<longrightarrow> numeric_handles (processFrame dhm s fr))"
proof (intro impI, elim conjE)
  assume a: "frame_channel fr = remoteChannel s" "remoteChannel s \<noteq> None"
     and f: "performative fr = FlowFrame f"
  have pf: "processFrame dhm s fr = dispatch s fr"
    using a f by (simp add: accepted_non_begin)
  have eff: "effects (dispatch s fr) =
         effects s @
           (if flow_handle f = Null
            then map (\<lambda>l. LinkCall l (Call_flowReceived fr)) (senderLinks s)
            else (case linksByRemoteHandle s (flow_handle f) of
                    Some l \<Rightarrow> [LinkCall l (Call_flowReceived fr)]
                  | None \<Rightarrow> [ConsoleWarn (UnknownFlow fr)]))"
    using dispatch_flow_effects[OF f, of s] by (simp split: option.splits)
  have keep: "numeric_handles s \<longrightarrow> numeric_handles (dispatch s fr)"
    by (simp add: numeric_handles_def dispatch_flow_table[OF f])
  show "sessionParams (processFrame dhm s fr) = sessionParams (flowReceived s f)
     \<and> effects (processFrame dhm s fr) =
         effects s @
           (if flow_handle f = Null
            then map (\<lambda>l. LinkCall l (Call_flowReceived fr)) (senderLinks s)
            else (case linksByRemoteHandle s (flow_handle f) of
                    Some l \<Rightarrow> [LinkCall l (Call_flowReceived fr)]
                  | None \<Rightarrow> [ConsoleWarn (UnknownFlow fr)]))
     \<and> (flow_handle f = Null \<longrightarrow>
          effects (processFrame dhm s fr) =
            effects s @ map (\<lambda>l. LinkCall l (Call_flowReceived fr)) (senderLinks s))
     \<and> (\<forall>h. flow_handle f = Val h \<longrightarrow>
          effects (processFrame dhm s fr) =
            effects s @ (case linksByRemoteHandle s (Val h) of
                           Some l \<Rightarrow> [LinkCall l (Call_flowReceived fr)]
                         | None \<Rightarrow> [ConsoleWarn (UnknownFlow fr)]))
     \<and> (flow_handle f = Undefined \<longrightarrow>
          effects (processFrame dhm s fr) =
            effects s @ (case linksByRemoteHandle s Undefined of
                           Some l \<Rightarrow> [LinkCall l (Call_flowReceived fr)]
                         | None \<Rightarrow> [ConsoleWarn (UnknownFlow fr)]))
     \<and> (flow_handle f = Undefined \<and> linksByRemoteHandle s Undefined = None \<longrightarrow>
          effects (processFrame dhm s fr) = effects s @ [ConsoleWarn (UnknownFlow fr)])
     \<and> (flow_handle f = Undefined \<and> numeric_handles s \<longrightarrow>
          effects (processFrame dhm s fr) = effects s @ [ConsoleWarn (UnknownFlow fr)])
     \<and> (numeric_handles s \<longrightarrow> numeric_handles (processFrame dhm s fr))"
    unfolding pf using keep
    by (auto simp add: dispatch_flow_params[OF f] eff numeric_handles_def split: option.splits)
qed

theorem flow_undefined_handle_not_broadcast_witness:
  "frame_channel example_flow_frame = remoteChannel two_senders
   \<and> remoteChannel two_senders \<noteq> None
   \<and> performative example_flow_frame = FlowFrame example_flow
   \<and> flow_handle example_flow = Undefined
   \<and> numeric_handles two_senders
   \<and> senderLinks two_senders =
        [example_link, \<lparr>link_name = ''out2'', link_handle = 1, link_role = sender\<rparr>]
   \<and> effects (processFrame 255 two_senders example_flow_frame) =
        [ConsoleWarn (UnknownFlow example_flow_frame)]
   \<and> remoteIncomingWindow (sessionParams (processFrame 255 two_senders example_flow_frame)) = 6
   \<and> effects (processFrame 255 two_senders
        \<lparr>frame_channel = Some 2, performative = FlowFrame (example_flow\<lparr>flow_handle := Null\<rparr>)\<rparr>) =
        [LinkCall example_link (Call_flowReceived
           \<lparr>frame_channel = Some 2, performative = FlowFrame (example_flow\<lparr>flow_handle := Null\<rparr>)\<rparr>),
         LinkCall \<lparr>link_name = ''out2'', link_handle = 1, link_role = sender\<rparr> (Call_flowReceived
           \<lparr>frame_channel = Some 2, performative = FlowFrame (example_flow\<lparr>flow_handle := Null\<rparr>)\<rparr>)]
   \<and> effects (processFrame 255 two_senders
        \<lparr>frame_channel = Some 2, performative = FlowFrame (example_flow\<lparr>flow_handle := Val 5\<rparr>)\<rparr>) =
        [LinkCall example_link (Call_flowReceived
           \<lparr>frame_channel = Some 2, performative = FlowFrame (example_flow\<lparr>flow_handle := Val 5\<rparr>)\<rparr>)]
   \<and> effects (processFrame 255 two_senders
        \<lparr>frame_channel = Some 2, performative = FlowFrame (example_flow\<lparr>flow_handle := Val 7\<rparr>)\<rparr>) =
        [ConsoleWarn (UnknownFlow
           \<lparr>frame_channel = Some 2, performative = FlowFrame (example_flow\<lparr>flow_handle := Val 7\<rparr>)\<rparr>)]"
  using flow_undefined_handle_not_broadcast[where s = two_senders and fr = example_flow_frame
      and f = example_flow and dhm = 255]
    flow_undefined_handle_not_broadcast[where s = two_senders
      and fr = "\<lparr>frame_channel = Some 2, performative = FlowFrame (example_flow\<lparr>flow_handle := Null\<rparr>)\<rparr>"
      and f = "example_flow\<lparr>flow_handle := Null\<rparr>" and dhm = 255]
    flow_undefined_handle_not_broadcast[where s = two_senders
      and fr = "\<lparr>frame_channel = Some 2, performative = FlowFrame (example_flow\<lparr>flow_handle := Val 5\<rparr>)\<rparr>"
      and f = "example_flow\<lparr>flow_handle := Val 5\<rparr>" and dhm = 255]
    flow_undefined_handle_not_broadcast[where s = two_senders
      and fr = "\<lparr>frame_channel = Some 2, performative = FlowFrame (example_flow\<lparr>flow_handle := Val 7\<rparr>)\<rparr>"
      and f = "example_flow\<lparr>flow_handle := Val 7\<rparr>" and dhm = 255]
  by (simp add: two_senders_def example_flow_frame_def example_flow_def example_session_def
        example_params_def flowReceived_def Let_def numeric_handles_def)

subsection \<open>The lifecycle\<close>

lemma endReceived_fields:
  "sessionSM (endReceived s err) = sessionSM s"
  "channel (endReceived s err) = channel s"
  "remoteChannel (endReceived s err) = remoteChannel s"
  "effects (endReceived s err) =
     effects s @ (case err of Some e \<Rightarrow> [Emit (ErrorReceived e)] | None \<Rightarrow> [])"
  by (simp_all add: endReceived_def emit_def split: option.splits)

lemma dispatch_end:
  assumes "performative fr = EndFrame err"
  shows "sessionSM (dispatch s fr) =
           (if sm_endReceived (sessionSM s) \<noteq> UNMAPPED
            then sm_sendEnd (sm_endReceived (sessionSM s)) else UNMAPPED)"
    and "effects (dispatch s fr) =
           effects s
           @ (case err of Some e \<Rightarrow> [Emit (ErrorReceived e)] | None \<Rightarrow> [])
           @ (if sm_endReceived (sessionSM s) \<noteq> UNMAPPED
              then [Conn_sendFrame \<lparr>frame_channel = channel s, performative = EndFrame None\<rparr>]
              else [])
           @ cleanup_effects (channel s)"
    and "channel (dispatch s fr) = None"
    and "channel s \<noteq> None \<Longrightarrow> remoteChannel (dispatch s fr) = None"
  using assms
  by (simp_all add: dispatch_def Let_def unmap_fields sendEnd_fields endReceived_fields)

lemma dropped_frame:
  assumes "remoteChannel s = None" "\<And>b. performative fr \<noteq> BeginFrame b"
  shows "processFrame dhm s fr = s"
  using assms by (cases "performative fr") (auto simp add: processFrame_def)

lemma dropped_frames:
  assumes "remoteChannel s = None" "\<forall>fr \<in> set frs. \<forall>b. performative fr \<noteq> BeginFrame b"
  shows "processFrames dhm s frs = s"
  using assms unfolding processFrames_def
  by (induction frs) (simp_all add: dropped_frame)

lemma session_begin_fields:
  "sessionSM (session_begin s pol ch) = sm_sendBegin (sessionSM s)"
  "channel (session_begin s pol ch) = Some ch"
  "effects (session_begin s pol ch) =
     effects s @ [Conn_associateSession ch, Conn_on,
       Conn_sendFrame \<lparr>frame_channel = Some ch,
         performative = BeginFrame
           \<lparr>begin_remoteChannel = None,
            begin_nextOutgoingId = nextOutgoingId (options pol),
            begin_incomingWindow = incomingWindow (options pol),
            begin_outgoingWindow = outgoingWindow (options pol),
            begin_handleMax = handleMax (options pol)\<rparr>\<rparr>]"
  by (simp_all add: session_begin_def Let_def)

lemma matching_begin:
  assumes "performative fr = BeginFrame b" "begin_remoteChannel b = channel s"
  shows "sessionSM (processFrame dhm s fr) = sm_beginReceived (sessionSM s)"
    and "channel (processFrame dhm s fr) = channel s"
    and "remoteChannel (processFrame dhm s fr) = frame_channel fr"
    and "mapped (processFrame dhm s fr)"
    and "effects (processFrame dhm s fr) = effects s @ [Emit Mapped]"
  using assms by (simp_all add: processFrame_def beginReceived_def Let_def emit_def)

lemma accepted_end:
  assumes "frame_channel fr = remoteChannel s" "remoteChannel s \<noteq> None"
    and "performative fr = EndFrame err"
  shows "sessionSM (processFrame dhm s fr) =
           (if sm_endReceived (sessionSM s) \<noteq> UNMAPPED
            then sm_sendEnd (sm_endReceived (sessionSM s)) else UNMAPPED)"
    and "effects (processFrame dhm s fr) =
           effects s
           @ (case err of Some e \<Rightarrow> [Emit (ErrorReceived e)] | None \<Rightarrow> [])
           @ (if sm_endReceived (sessionSM s) \<noteq> UNMAPPED
              then [Conn_sendFrame \<lparr>frame_channel = channel s, performative = EndFrame None\<rparr>]
              else [])
           @ cleanup_effects (channel s)"
    and "channel (processFrame dhm s fr) = None"
    and "channel s \<noteq> None \<Longrightarrow> remoteChannel (processFrame dhm s fr) = None"
    and "channel s \<noteq> None \<Longrightarrow> \<not> mapped (processFrame dhm s fr)"
proof -
  have pf: "processFrame dhm s fr = dispatch s fr"
    using assms by (simp add: accepted_non_begin)
  show "sessionSM (processFrame dhm s fr) =
           (if sm_endReceived (sessionSM s) \<noteq> UNMAPPED
            then sm_sendEnd (sm_endReceived (sessionSM s)) else UNMAPPED)"
    and "effects (processFrame dhm s fr) =
           effects s
           @ (case err of Some e \<Rightarrow> [Emit (ErrorReceived e)] | None \<Rightarrow> [])
           @ (if sm_endReceived (sessionSM s) \<noteq> UNMAPPED
              then [Conn_sendFrame \<lparr>frame_channel = channel s, performative = EndFrame None\<rparr>]
              else [])
           @ cleanup_effects (channel s)"
    and "channel (processFrame dhm s fr) = None"
    and "channel s \<noteq> None \<Longrightarrow> remoteChannel (processFrame dhm s fr) = None"
    unfolding pf using dispatch_end[OF assms(3)] by simp_all
  show "channel s \<noteq> None \<Longrightarrow> \<not> mapped (processFrame dhm s fr)"
    unfolding pf using assms(3)
    by (auto simp add: dispatch_def Let_def unmap_def sendEnd_def sendFrame_def endReceived_def emit_def
          split: option.splits)
qed

lemma end_frames_not_begin:
  "\<forall>fr \<in> set frs. \<exists>e. performative fr = EndFrame e \<Longrightarrow>
   \<forall>fr \<in> set frs. \<forall>b. performative fr \<noteq> BeginFrame b"
  by auto

text \<open>
  C4. From UNMAPPED, \<open>begin\<close> leads to BEGIN_SENT and the peer's Begin for the local
  channel to MAPPED; from there \<open>end()\<close> leads to END_SENT and sends an End frame, and the
  peer's End then leads to UNMAPPED, emits the error it carries, sends no second End and
  cleans up once. If the peer's End comes first, in MAPPED, the session emits the error,
  sends its own End and cleans up. End frames that arrive after the cleanup change
  nothing, so there is one \<open>Unmapped\<close> event for the mapping. In general, an accepted End
  frame fires \<open>endReceived\<close>, emits the error if there is one, fires \<open>sendEnd\<close> and sends
  an End frame only if the state is not UNMAPPED by then, and calls \<open>_unmap\<close>.
\<close>

theorem session_lifecycle:
  "(sessionSM s = UNMAPPED
    \<and> performative bf = BeginFrame b \<and> begin_remoteChannel b = Some ch \<and> frame_channel bf = Some rc
    \<and> performative ef = EndFrame err \<and> frame_channel ef = Some rc
    \<and> (\<forall>fr \<in> set later. \<exists>e. performative fr = EndFrame e) \<longrightarrow>
      (let s1 = session_begin s pol ch;
           s2 = processFrame dhm s1 bf;
           s3 = session_end s2;
           s4 = processFrame dhm s3 ef;
           r4 = processFrame dhm s2 ef;
           raised = (case err of Some e \<Rightarrow> [Emit (ErrorReceived e)] | None \<Rightarrow> [])
       in sessionSM s1 = BEGIN_SENT \<and> sessionSM s2 = MAPPED
          \<and> sessionSM s3 = END_SENT \<and> sessionSM s4 = UNMAPPED
          \<and> effects s3 = effects s2 @ [Conn_sendFrame \<lparr>frame_channel = Some ch, performative = EndFrame None\<rparr>]
          \<and> effects s4 = effects s3 @ raised @ [Conn_removeListener, Conn_dissociateSession ch, Emit Unmapped]
          \<and> channel s4 = None \<and> remoteChannel s4 = None \<and> \<not> mapped s4
          \<and> processFrames dhm s4 later = s4
          \<and> count_list (effects (processFrames dhm s4 later)) (Emit Unmapped) =
              count_list (effects s) (Emit Unmapped) + 1
          \<and> sessionSM r4 = UNMAPPED
          \<and> effects r4 = effects s2 @ raised
              @ [Conn_sendFrame \<lparr>frame_channel = Some ch, performative = EndFrame None\<rparr>,
                 Conn_removeListener, Conn_dissociateSession ch, Emit Unmapped]
          \<and> processFrames dhm r4 later = r4))
   \<and> (frame_channel fr = remoteChannel s \<and> remoteChannel s \<noteq> None \<and> performative fr = EndFrame err
      \<and> (\<forall>fr \<in> set later. \<exists>e. performative fr = EndFrame e) \<longrightarrow>
        sessionSM (processFrame dhm s fr) =
          (if sm_endReceived (sessionSM s) \<noteq> UNMAPPED
           then sm_sendEnd (sm_endReceived (sessionSM s)) else UNMAPPED)
        \<and> effects (processFrame dhm s fr) =
            effects s
            @ (case err of Some e \<Rightarrow> [Emit (ErrorReceived e)] | None \<Rightarrow> [])
            @ (if sm_endReceived (sessionSM s) \<noteq> UNMAPPED
               then [Conn_sendFrame \<lparr>frame_channel = channel s, performative = EndFrame None\<rparr>]
               else [])
            @ cleanup_effects (channel s)
        \<and> (channel s \<noteq> None \<longrightarrow>
              processFrames dhm (processFrame dhm s fr) later = processFrame dhm s fr))"
proof (rule conjI; intro impI; elim conjE)
  assume u: "sessionSM s = UNMAPPED"
    and bf: "performative bf = BeginFrame b" "begin_remoteChannel b = Some ch" "frame_channel bf = Some rc"
    and ef: "performative ef = EndFrame err" "frame_channel ef = Some rc"
    and later: "\<forall>fr \<in> set later. \<exists>e. performative fr = EndFrame e"
  define s1 where "s1 = session_begin s pol ch"
  define s2 where "s2 = processFrame dhm s1 bf"
  define s3 where "s3 = session_end s2"
  define s4 where "s4 = processFrame dhm s3 ef"
  define r4 where "r4 = processFrame dhm s2 ef"
  define raised where "raised = (case err of Some e \<Rightarrow> [Emit (ErrorReceived e)] | None \<Rightarrow> [])"
  have s1: "sessionSM s1 = BEGIN_SENT" "channel s1 = Some ch"
    "count_list (effects s1) (Emit Unmapped) = count_list (effects s) (Emit Unmapped)"
    using u by (simp_all add: s1_def session_begin_fields)
  have m: "begin_remoteChannel b = channel s1" using bf s1 by simp
  have s2: "sessionSM s2 = MAPPED" "channel s2 = Some ch" "remoteChannel s2 = Some rc"
    "count_list (effects s2) (Emit Unmapped) = count_list (effects s) (Emit Unmapped)"
    using matching_begin[OF bf(1) m, of dhm] s1 bf(3) by (simp_all add: s2_def)
  have s3: "sessionSM s3 = END_SENT" "channel s3 = Some ch" "remoteChannel s3 = Some rc"
    "effects s3 = effects s2 @ [Conn_sendFrame \<lparr>frame_channel = Some ch, performative = EndFrame None\<rparr>]"
    using s2 by (simp_all add: s3_def session_end_def Let_def sendEnd_fields)
  have a3: "frame_channel ef = remoteChannel s3" "remoteChannel s3 \<noteq> None"
    using ef s3 by simp_all
  have s4: "sessionSM s4 = UNMAPPED"
    "effects s4 = effects s3 @ raised @ [Conn_removeListener, Conn_dissociateSession ch, Emit Unmapped]"
    "channel s4 = None" "remoteChannel s4 = None" "\<not> mapped s4"
    using accepted_end[OF a3 ef(1), of dhm] s3
    by (simp_all add: s4_def raised_def cleanup_effects_def)
  have a2: "frame_channel ef = remoteChannel s2" "remoteChannel s2 \<noteq> None"
    using ef s2 by simp_all
  have r4: "sessionSM r4 = UNMAPPED"
    "effects r4 = effects s2 @ raised
       @ [Conn_sendFrame \<lparr>frame_channel = Some ch, performative = EndFrame None\<rparr>,
          Conn_removeListener, Conn_dissociateSession ch, Emit Unmapped]"
    "remoteChannel r4 = None"
    using accepted_end[OF a2 ef(1), of dhm] s2
    by (simp_all add: r4_def raised_def cleanup_effects_def)
  have nb: "\<forall>fr \<in> set later. \<forall>b. performative fr \<noteq> BeginFrame b"
    using end_frames_not_begin[OF later] .
  have d4: "processFrames dhm s4 later = s4"
    using dropped_frames[OF s4(4) nb] .
  have dr: "processFrames dhm r4 later = r4"
    using dropped_frames[OF r4(3) nb] .
  have cr: "count_list raised (Emit Unmapped) = 0"
    by (simp add: raised_def split: option.splits)
  have cnt: "count_list (effects s4) (Emit Unmapped) = count_list (effects s) (Emit Unmapped) + 1"
    by (simp add: s4 s3 s2 cr)
  show "let s1 = session_begin s pol ch;
           s2 = processFrame dhm s1 bf;
           s3 = session_end s2;
           s4 = processFrame dhm s3 ef;
           r4 = processFrame dhm s2 ef;
           raised = (case err of Some e \<Rightarrow> [Emit (ErrorReceived e)] | None \<Rightarrow> [])
       in sessionSM s1 = BEGIN_SENT \<and> sessionSM s2 = MAPPED
          \<and> sessionSM s3 = END_SENT \<and> sessionSM s4 = UNMAPPED
          \<and> effects s3 = effects s2 @ [Conn_sendFrame \<lparr>frame_channel = Some ch, performative = EndFrame None\<rparr>]
          \<and> effects s4 = effects s3 @ raised @ [Conn_removeListener, Conn_dissociateSession ch, Emit Unmapped]
          \<and> channel s4 = None \<and> remoteChannel s4 = None \<and> \<not> mapped s4
          \<and> processFrames dhm s4 later = s4
          \<and> count_list (effects (processFrames dhm s4 later)) (Emit Unmapped) =
              count_list (effects s) (Emit Unmapped) + 1
          \<and> sessionSM r4 = UNMAPPED
          \<and> effects r4 = effects s2 @ raised
              @ [Conn_sendFrame \<lparr>frame_channel = Some ch, performative = EndFrame None\<rparr>,
                 Conn_removeListener, Conn_dissociateSession ch, Emit Unmapped]
          \<and> processFrames dhm r4 later = r4"
    unfolding Let_def s1_def[symmetric] s2_def[symmetric] s3_def[symmetric] s4_def[symmetric]
      r4_def[symmetric] raised_def[symmetric]
    using s1(1) s2(1) s3(1,4) s4 d4 dr cnt r4(1,2) by simp
next
  assume a: "frame_channel fr = remoteChannel s" "remoteChannel s \<noteq> None"
    and e: "performative fr = EndFrame err"
    and later: "\<forall>fr \<in> set later. \<exists>e. performative fr = EndFrame e"
  have nb: "\<forall>fr \<in> set later. \<forall>b. performative fr \<noteq> BeginFrame b"
    using end_frames_not_begin[OF later] .
  have rest: "processFrames dhm (processFrame dhm s fr) later = processFrame dhm s fr"
    if "channel s \<noteq> None"
    using dropped_frames[OF accepted_end(4)[OF a e that] nb] .
  show "sessionSM (processFrame dhm s fr) =
          (if sm_endReceived (sessionSM s) \<noteq> UNMAPPED
           then sm_sendEnd (sm_endReceived (sessionSM s)) else UNMAPPED)
        \<and> effects (processFrame dhm s fr) =
            effects s
            @ (case err of Some e \<Rightarrow> [Emit (ErrorReceived e)] | None \<Rightarrow> [])
            @ (if sm_endReceived (sessionSM s) \<noteq> UNMAPPED
               then [Conn_sendFrame \<lparr>frame_channel = channel s, performative = EndFrame None\<rparr>]
               else [])
            @ cleanup_effects (channel s)
        \<and> (channel s \<noteq> None \<longrightarrow>
              processFrames dhm (processFrame dhm s fr) later = processFrame dhm s fr)"
    using accepted_end(1,2)[OF a e, of dhm] rest by simp
qed

theorem session_lifecycle_witness:
  "sessionSM idle_session = UNMAPPED
   \<and> performative example_begin =
        BeginFrame \<lparr>begin_remoteChannel = Some 1, begin_nextOutgoingId = 0,
          begin_incomingWindow = 50, begin_outgoingWindow = 50, begin_handleMax = None\<rparr>
   \<and> frame_channel example_begin = Some 2
   \<and> performative example_end = EndFrame (Some ''closed'')
   \<and> frame_channel example_end = Some 2
   \<and> sessionSM (session_begin idle_session (policy idle_session) 1) = BEGIN_SENT
   \<and> sessionSM (processFrame 255 (session_begin idle_session (policy idle_session) 1) example_begin) = MAPPED
   \<and> sessionSM (session_end
        (processFrame 255 (session_begin idle_session (policy idle_session) 1) example_begin)) = END_SENT
   \<and> sessionSM (processFrame 255 (session_end
        (processFrame 255 (session_begin idle_session (policy idle_session) 1) example_begin))
        example_end) = UNMAPPED
   \<and> count_list (effects (processFrames 255 (processFrame 255 (session_end
        (processFrame 255 (session_begin idle_session (policy idle_session) 1) example_begin))
        example_end) [example_end, example_end])) (Emit Unmapped) = 1"
proof -
  have h: "sessionSM idle_session = UNMAPPED
    \<and> performative example_begin =
        BeginFrame \<lparr>begin_remoteChannel = Some 1, begin_nextOutgoingId = 0,
          begin_incomingWindow = 50, begin_outgoingWindow = 50, begin_handleMax = None\<rparr>
    \<and> begin_remoteChannel \<lparr>begin_remoteChannel = Some 1, begin_nextOutgoingId = 0,
          begin_incomingWindow = 50, begin_outgoingWindow = 50, begin_handleMax = None\<rparr> = Some 1
    \<and> frame_channel example_begin = Some 2
    \<and> performative example_end = EndFrame (Some ''closed'') \<and> frame_channel example_end = Some 2
    \<and> (\<forall>fr \<in> set [example_end, example_end]. \<exists>e. performative fr = EndFrame e)"
    by (simp add: idle_session_def example_begin_def example_end_def)
  have e0: "count_list (effects idle_session) (Emit Unmapped) = 0"
    by (simp add: idle_session_def example_session_def)
  note run = session_lifecycle[where s = idle_session and bf = example_begin and ch = 1 and rc = 2
      and b = "\<lparr>begin_remoteChannel = Some 1, begin_nextOutgoingId = 0, begin_incomingWindow = 50,
                 begin_outgoingWindow = 50, begin_handleMax = None\<rparr>"
      and ef = example_end and err = "Some ''closed''" and later = "[example_end, example_end]"
      and pol = "policy idle_session" and dhm = 255, THEN conjunct1, THEN mp, OF h, unfolded Let_def]
  from run have "count_list (effects (processFrames 255 (processFrame 255 (session_end
        (processFrame 255 (session_begin idle_session (policy idle_session) 1) example_begin))
        example_end) [example_end, example_end])) (Emit Unmapped) =
      count_list (effects idle_session) (Emit Unmapped) + 1"
    by blast
  then have once: "count_list (effects (processFrames 255 (processFrame 255 (session_end
        (processFrame 255 (session_begin idle_session (policy idle_session) 1) example_begin))
        example_end) [example_end, example_end])) (Emit Unmapped) = 1"
    by (simp only: e0)
  show ?thesis
    using h run once by blast
qed

end
